theory Spec2Isabelle
  imports Complex_Main "HOL-Library.Word"
begin

section \<open>The web-window manager of gui/webdisplay (TWebWindowsManager.cxx)\<close>

text \<open>
  A shallow embedding of \<^verbatim>\<open>ROOT::Experimental::TWebWindowsManager\<close>. Every member
  function of the source file becomes a HOL function of the same name over an explicit
  state; every collaborator the file calls (gEnv, gRandom, gSystem, gROOT, THttpServer,
  posix_spawn, kill, the stopwatch) is an oracle in an environment record or a log in the
  state, so that what the manager does to them can be observed. \<^verbatim>\<open>Instance\<close> and
  \<^verbatim>\<open>Terminate\<close>, of which nothing is stated below, are left out.
\<close>

subsection \<open>Strings of the C++ standard library\<close>

text \<open>
  \<^verbatim>\<open>std::to_string\<close> of an unsigned and of a signed integer: the decimal digits,
  without leading zeros, with a minus sign for a negative value.
\<close>

fun to_string_nat :: "nat \<Rightarrow> string" where
  "to_string_nat n =
     (if n < 10 then [''0123456789'' ! n]
      else to_string_nat (n div 10) @ [''0123456789'' ! (n mod 10)])"

declare to_string_nat.simps [simp del]

definition to_string :: "int \<Rightarrow> string" where
  "to_string i = (if i < 0 then CHR ''-'' # to_string_nat (nat (- i)) else to_string_nat (nat i))"

text \<open>
  \<^verbatim>\<open>std::stoi(str)\<close> (base 10): skips leading white space as \<^verbatim>\<open>isspace\<close> does, takes an
  optional sign and then the longest run of decimal digits, ignoring whatever follows.
  It throws \<^verbatim>\<open>std::invalid_argument\<close> when there is no digit to convert and
  \<^verbatim>\<open>std::out_of_range\<close> when the value does not fit an \<^verbatim>\<open>int\<close> (32 bits).
\<close>

datatype cpp_exception = invalid_argument | out_of_range

definition isspace :: "char \<Rightarrow> bool" where
  "isspace c = (c \<in> set [CHR '' '', CHR 0x09, CHR 0x0A, CHR 0x0B, CHR 0x0C, CHR 0x0D])"

definition isdigit :: "char \<Rightarrow> bool" where
  "isdigit c = (c \<in> set ''0123456789'')"

definition digit_val :: "char \<Rightarrow> int" where
  "digit_val c = int (of_char c) - 48"

definition decimal :: "string \<Rightarrow> int" where
  "decimal ds = foldl (\<lambda>acc c. 10 * acc + digit_val c) 0 ds"

definition stoi :: "string \<Rightarrow> cpp_exception + int" where
  "stoi str =
     (let t = dropWhile isspace str;
          neg = (t \<noteq> [] \<and> hd t = CHR ''-'');
          u = (if t \<noteq> [] \<and> (hd t = CHR ''-'' \<or> hd t = CHR ''+'') then tl t else t);
          ds = takeWhile isdigit u;
          v = (if neg then - decimal ds else decimal ds)
      in if ds = [] then Inl invalid_argument
         else if v < - (2 ^ 31) \<or> 2 ^ 31 - 1 < v then Inl out_of_range
         else Inr v)"

subsection \<open>HaltClient (lines 498-509)\<close>

text \<open>
  The build is the POSIX one (\<^verbatim>\<open>_MSC_VER\<close> not defined), where the function calls
  \<^verbatim>\<open>kill(pid, SIGKILL)\<close>. The signals sent are logged, oldest first. An exception
  that \<^verbatim>\<open>std::stoi\<close> throws is not caught in the function, so it reaches the caller:
  the model returns it as \<open>Inl\<close>.
  \<^verbatim>\<open>
   if (procid.find("pid:") != 0) return;
   int pid = std::stoi(procid.substr(4));
   if (pid>0) kill(pid, SIGKILL);
  \<close>
\<close>

definition HaltClient :: "string \<Rightarrow> int list \<Rightarrow> cpp_exception + int list" where
  "HaltClient procid killed =
     (if take 4 procid \<noteq> ''pid:'' then Inr killed
      else case stoi (drop 4 procid) of
             Inl ex \<Rightarrow> Inl ex
           | Inr pid \<Rightarrow> if pid > 0 then Inr (killed @ [pid]) else Inr killed)"

subsection \<open>The collaborators\<close>

text \<open>
  Modelled from the spec: the configuration collaborator \<^verbatim>\<open>gEnv\<close> (TEnv is not among
  the sources) is "an opaque key to value lookup with defaults": \<^verbatim>\<open>GetValue(name, dflt)\<close>
  gives the configured value, and \<open>dflt\<close> when the key is not configured. An integer
  value is an \<^verbatim>\<open>int\<close> of the source, 32 bits wide and signed: it is kept as a word and
  read by \<open>sint\<close>, so that every value looked up lies between \<open>- 2^31\<close> and \<open>2^31 - 1\<close>.
\<close>

record TEnv =
  ints :: "string \<rightharpoonup> 32 word"
  strs :: "string \<rightharpoonup> string"
  dbls :: "string \<rightharpoonup> real"

definition GetValue_int :: "TEnv \<Rightarrow> string \<Rightarrow> int \<Rightarrow> int" where
  "GetValue_int env name dflt = (case ints env name of None \<Rightarrow> dflt | Some v \<Rightarrow> sint v)"

definition GetValue_str :: "TEnv \<Rightarrow> string \<Rightarrow> string \<Rightarrow> string" where
  "GetValue_str env name dflt = (case strs env name of None \<Rightarrow> dflt | Some v \<Rightarrow> v)"

definition GetValue_dbl :: "TEnv \<Rightarrow> string \<Rightarrow> real \<Rightarrow> real" where
  "GetValue_dbl env name dflt = (case dbls env name of None \<Rightarrow> dflt | Some v \<Rightarrow> v)"

text \<open>
  What the process around the manager answers. The random generator \<^verbatim>\<open>gRandom\<close> is a
  sequence of outcomes: the state counts the values drawn so far (\<open>draws\<close>), and the
  \<open>n\<close>-th draw gives \<open>Rndm n\<close> when it is a call of \<^verbatim>\<open>Rndm(1)\<close> and \<open>Integer n\<close> when it
  is a call of \<^verbatim>\<open>Integer(0x100000)\<close>; \<^verbatim>\<open>SetSeed(0)\<close> (a seed taken from the clock) only
  changes which outcomes follow, so it is not a step of the model. \<open>CreateEngine n spec\<close>
  is the answer of \<^verbatim>\<open>THttpServer::CreateEngine(spec)\<close> when \<open>n\<close> engines were asked for
  before. \<open>AccessPathName\<close> is true when the path can NOT be accessed, as in TSystem.
  \<open>DynFindSymbol libs symbol\<close> is asked with the libraries loaded so far.
  \<open>posix_spawn path argv\<close> gives the status and the process id. \<open>RealTime n\<close> is what
  the stopwatch of WaitFor reads after the \<open>n\<close>-th sleep. Doubles are reals.
\<close>

record sysenv =
  gEnv :: TEnv
  Rndm :: "nat \<Rightarrow> real"
  Integer :: "nat \<Rightarrow> nat"
  CreateEngine :: "nat \<Rightarrow> string \<Rightarrow> bool"
  WebDisplay :: string
  WebDisplayBatch :: bool
  Getenv :: "string \<rightharpoonup> string"
  AccessPathName :: "string \<Rightarrow> bool"
  DynFindSymbol :: "string list \<Rightarrow> string \<Rightarrow> bool"
  InheritsFrom :: "string \<Rightarrow> bool"
  posix_spawn :: "string \<Rightarrow> string list \<Rightarrow> int \<times> int"
  handler_name :: "nat \<Rightarrow> string"
  RealTime :: "nat \<Rightarrow> real"

text \<open>
  The preprocessor symbols the file branches on, and the one default argument that the
  header (not among the sources) declares: \<^verbatim>\<open>CreateHttpServer(bool with_http = ...)\<close>.
\<close>

record build =
  HAS_CEFWEB :: bool
  HAS_QT5WEB :: bool
  MACOSX :: bool
  LINUX :: bool
  MSC_VER :: bool
  with_http_dflt :: bool

subsection \<open>The manager's state\<close>

datatype THttpServer = THttpServer string

datatype launch =
    CefStart string bool string string nat nat
  | Qt5Start string bool nat nat
  | Spawn string "string list"
  | Exec string

text \<open>
  Modelled from the spec: the declaration of the counter \<open>fIdCnt\<close> is in the header,
  which is not among the sources; the spec's data model has the id of a window as an
  integer above 0 taken from a monotonically increasing counter, so the counter is a
  natural number here.

  The state is the three fields of the manager (\<open>fServer\<close>, \<open>fAddr\<close>, \<open>fIdCnt\<close>) and
  what the manager has done to its collaborators: the number of random values drawn, the
  engine specifications passed to \<^verbatim>\<open>CreateEngine\<close> (one per bind attempt, oldest
  first), the handlers registered with the server, the libraries loaded and the clients
  launched.
\<close>

record mstate =
  fServer :: "THttpServer option"
  fAddr :: string
  fIdCnt :: nat
  draws :: nat
  engines :: "string list"
  registered :: "(string \<times> string) list"
  libs :: "string list"
  launched :: "launch list"

text \<open>
  The failures of the file. Each is a \<^verbatim>\<open>return false\<close> (or \<^verbatim>\<open>nullptr\<close>) after the
  \<^verbatim>\<open>R__ERROR_HERE\<close> report it is named after; \<open>BindFailed\<close> (line 165) and
  \<open>NoArguments\<close> (line 455) return false without a report.
\<close>

datatype error =
    HttpNotAllowed
  | WrongHttpRange
  | BindFailed
  | NoServer
  | NoUniqueKey
  | BatchNeedsHeadless
  | CefNeedsDisplay
  | NoRealHttp
  | NoArguments
  | LaunchFailed
  | ForkUnsupported

subsection \<open>CreateHttpServer (lines 95-166)\<close>

text \<open>The locals that the retry loop reads: the configuration of lines 104-113.\<close>

record portcfg =
  http_min :: int
  http_max :: int
  http_wstmout :: int
  assign_loopback :: bool
  use_secure :: bool
  http_bind :: string
  ssl_cert :: string

text \<open>\<^verbatim>\<open>strstr(haystack, needle)\<close> as a truth value: the needle occurs in the haystack.\<close>

fun strstr :: "string \<Rightarrow> string \<Rightarrow> bool" where
  "strstr [] needle = (needle = [])"
| "strstr (c # cs) needle = (take (length needle) (c # cs) = needle \<or> strstr cs needle)"

text \<open>
  The arithmetic of the source on \<^verbatim>\<open>int\<close> is on 32 bits. The one place where it can
  leave the range is the difference \<^verbatim>\<open>http_max - http_min\<close> of two configured values
  (lines 124, 125 and 134): \<open>int32\<close> is the value that the two's complement machine
  keeps of it, the difference wrapped into \<open>- 2^31 .. 2^31 - 1\<close>. The retry counter is
  read only at values within \<open>- 2^31 .. 100\<close>, and the ports are as configured.
\<close>

definition int32 :: "int \<Rightarrow> int" where
  "int32 x = (x + 2 ^ 31) mod 2 ^ 32 - 2 ^ 31"

text \<open>The cast \<^verbatim>\<open>(int)\<close> of a double truncates towards zero.\<close>

definition trunc :: "real \<Rightarrow> int" where
  "trunc x = (if x < 0 then \<lceil>x\<rceil> else \<lfloor>x\<rfloor>)"

text \<open>Lines 137-153: the engine specification and the URL prefix of one attempt.\<close>

definition engine_spec :: "portcfg \<Rightarrow> int \<Rightarrow> string" where
  "engine_spec c http_port =
     (let engine = (if use_secure c then ''https'' else ''http'') @ '':'' @ to_string http_port
                   @ ''?websocket_timeout='' @ to_string (http_wstmout c);
          engine = (if assign_loopback c then engine @ ''&loopback''
                    else if http_bind c \<noteq> [] then engine @ ''&bind='' @ http_bind c
                    else engine)
      in if use_secure c then engine @ ''&ssl_cert='' @ ssl_cert c else engine)"

definition engine_url :: "portcfg \<Rightarrow> string" where
  "engine_url c =
     (if use_secure c then ''https://'' else ''http://'') @
     (if assign_loopback c then ''localhost''
      else if http_bind c \<noteq> [] then http_bind c
      else ''localhost'')"

text \<open>
  One round of the loop after the range check (lines 134-155): the port is the fixed one,
  or is drawn when \<open>http_port\<close> is 0; the engine is asked for. The result is the answer
  of \<^verbatim>\<open>CreateEngine\<close>, the port and the state after the attempt.
\<close>

definition bind_attempt :: "sysenv \<Rightarrow> portcfg \<Rightarrow> int \<Rightarrow> mstate \<Rightarrow> bool \<times> int \<times> mstate" where
  "bind_attempt e c http_port s =
     (let port = (if http_port = 0
                  then trunc (of_int (http_min c) + of_int (int32 (http_max c - http_min c)) * Rndm e (draws s))
                  else http_port);
          s1 = (if http_port = 0 then s\<lparr>draws := draws s + 1\<rparr> else s);
          engine = engine_spec c port
      in (CreateEngine e (length (engines s1)) engine, port, s1\<lparr>engines := engines s1 @ [engine]\<rparr>))"

text \<open>
  The loop of lines 127-163, \<^verbatim>\<open>while (ntry-- >= 0) { ... }\<close>: \<open>ntry\<close> is the value the
  test reads, and the next round reads \<open>ntry - 1\<close>.
\<close>

function bind_loop :: "sysenv \<Rightarrow> portcfg \<Rightarrow> int \<Rightarrow> int \<Rightarrow> mstate \<Rightarrow> (error + unit) \<times> mstate" where
  "bind_loop e c ntry http_port s =
     (if ntry \<ge> 0 then
        if http_port = 0 \<and> (http_min c \<le> 0 \<or> http_max c \<le> http_min c) then (Inl WrongHttpRange, s)
        else
          let a = bind_attempt e c http_port s
          in if fst a
             then (Inr (), (snd (snd a))\<lparr>fAddr := engine_url c @ '':'' @ to_string (fst (snd a))\<rparr>)
             else bind_loop e c (ntry - 1) 0 (snd (snd a))
      else (Inl BindFailed, s))"
  by pat_completeness auto
termination
  by (relation "measure (\<lambda>(e, c, ntry, http_port, s). nat (ntry + 1))") auto

declare bind_loop.simps [simp del]

definition CreateHttpServer :: "sysenv \<Rightarrow> bool \<Rightarrow> mstate \<Rightarrow> (error + unit) \<times> mstate" where
  "CreateHttpServer e with_http s0 =
     (let s = (if fServer s0 = None then s0\<lparr>fServer := Some (THttpServer ''basic_sniffer'')\<rparr> else s0)
      in if \<not> with_http \<or> fAddr s \<noteq> [] then (Inr (), s)
         else
           let http_port = GetValue_int (gEnv e) ''WebGui.HttpPort'' 0;
               c = \<lparr>http_min = GetValue_int (gEnv e) ''WebGui.HttpPortMin'' 8800,
                    http_max = GetValue_int (gEnv e) ''WebGui.HttpPortMax'' 9800,
                    http_wstmout = GetValue_int (gEnv e) ''WebGui.HttpWStmout'' 10000,
                    assign_loopback = strstr (GetValue_str (gEnv e) ''WebGui.HttpLoopback'' ''no'') ''yes'',
                    use_secure = strstr (GetValue_str (gEnv e) ''WebGui.UseHttps'' ''no'') ''yes'',
                    http_bind = GetValue_str (gEnv e) ''WebGui.HttpBind'' [],
                    ssl_cert = GetValue_str (gEnv e) ''WebGui.ServerCert'' ''rootserver.pem''\<rparr>;
               ntry = 100
           in if http_port < 0 then (Inl HttpNotAllowed, s)
              else
                let ntry = (if int32 (http_max c - http_min c) < ntry then int32 (http_max c - http_min c)
                            else ntry)
                in bind_loop e c ntry http_port s)"

subsection \<open>Windows\<close>

text \<open>
  Modelled from the spec: the class TWebWindow is not among the sources. The spec's data
  model gives a window an id, a batch flag, a width and a height (0 for the default), an
  endpoint (the name of its web-socket handler, \<open>None\<close> while \<^verbatim>\<open>fWSHandler\<close> is null)
  and the issued keys as a mapping from key to launch tag, with \<^verbatim>\<open>HasKey(k)\<close> and
  \<^verbatim>\<open>AddKey(k, tag)\<close> as its bookkeeping. The name that \<^verbatim>\<open>CreateWSHandler\<close> gives the
  handler is "derived from the id": the function \<open>handler_name\<close> of the environment.
  The back-reference \<open>fMgr\<close> of a window is left out: every function here is given
  the manager's state.
\<close>

record webwindow =
  fId :: nat
  fBatchMode :: bool
  fWidth :: nat
  fHeight :: nat
  fWSHandler :: "string option"
  fKeys :: "string \<rightharpoonup> string"

definition HasKey :: "webwindow \<Rightarrow> string \<Rightarrow> bool" where
  "HasKey win key = (fKeys win key \<noteq> None)"

definition AddKey :: "string \<Rightarrow> string \<Rightarrow> webwindow \<Rightarrow> webwindow" where
  "AddKey key procid win = win\<lparr>fKeys := (fKeys win)(key \<mapsto> procid)\<rparr>"

definition TWebWindow :: webwindow where
  "TWebWindow = \<lparr>fId = 0, fBatchMode = False, fWidth = 0, fHeight = 0,
                  fWSHandler = None, fKeys = Map.empty\<rparr>"

definition CreateWSHandler :: "sysenv \<Rightarrow> webwindow \<Rightarrow> webwindow" where
  "CreateWSHandler e win = win\<lparr>fWSHandler := Some (handler_name e (fId win))\<rparr>"

text \<open>The manager as its defaulted constructor leaves it (line 66).\<close>

definition TWebWindowsManager :: mstate where
  "TWebWindowsManager = \<lparr>fServer = None, fAddr = [], fIdCnt = 0, draws = 0, engines = [],
                          registered = [], libs = [], launched = []\<rparr>"

subsection \<open>CreateWindow (lines 172-199) and Unregister (lines 205-218)\<close>

text \<open>
  \<^verbatim>\<open>std::make_shared\<close> does not return null, so the branch of line 181 is never taken.
  The result is \<open>None\<close> for \<^verbatim>\<open>nullptr\<close>.
\<close>

definition CreateWindow :: "sysenv \<Rightarrow> build \<Rightarrow> bool \<Rightarrow> mstate \<Rightarrow> webwindow option \<times> mstate" where
  "CreateWindow e b batch_mode s =
     (case CreateHttpServer e (with_http_dflt b) s of
        (Inl err, s1) \<Rightarrow> (None, s1)
      | (Inr u, s1) \<Rightarrow>
          let win = TWebWindow\<lparr>fBatchMode := batch_mode \<or> WebDisplayBatch e\<rparr>;
              s2 = s1\<lparr>fIdCnt := fIdCnt s1 + 1\<rparr>;
              win = win\<lparr>fId := fIdCnt s2\<rparr>;
              win = CreateWSHandler e win;
              s3 = s2\<lparr>registered := registered s2 @ [(''/web7gui'', handler_name e (fId win))]\<rparr>
          in (Some win, s3))"

text \<open>
  Unregister dereferences \<open>fServer\<close> when the window has a handler: with no server the
  behaviour is undefined, and the model gives no result (\<open>None\<close>).
\<close>

definition Unregister :: "webwindow \<Rightarrow> mstate \<Rightarrow> mstate option" where
  "Unregister win s =
     (case fWSHandler win of
        None \<Rightarrow> Some s
      | Some h \<Rightarrow>
          if fServer s = None then None
          else Some (s\<lparr>registered := filter (\<lambda>r. snd r \<noteq> h) (registered s)\<rparr>))"

text \<open>
  A life of the manager: windows are created and windows are destroyed, in any order.
  \<open>run\<close> collects the ids of the windows created, oldest first.
\<close>

datatype op = Create bool | Destroy webwindow

fun run :: "sysenv \<Rightarrow> build \<Rightarrow> op list \<Rightarrow> mstate \<Rightarrow> (nat list \<times> mstate) option" where
  "run e b [] s = Some ([], s)"
| "run e b (Create batch_mode # ops) s =
     (case CreateWindow e b batch_mode s of
        (None, s1) \<Rightarrow> run e b ops s1
      | (Some win, s1) \<Rightarrow>
          (case run e b ops s1 of
             None \<Rightarrow> None
           | Some (ids, s2) \<Rightarrow> Some (fId win # ids, s2)))"
| "run e b (Destroy win # ops) s =
     (case Unregister win s of None \<Rightarrow> None | Some s1 \<Rightarrow> run e b ops s1)"

subsection \<open>GetUrl (lines 223-249)\<close>

text \<open>
  The result is \<open>None\<close> where the source dereferences a null \<^verbatim>\<open>fWSHandler\<close> (line 232).
\<close>

definition GetUrl :: "sysenv \<Rightarrow> webwindow \<Rightarrow> bool \<Rightarrow> mstate \<Rightarrow> (string \<times> mstate) option" where
  "GetUrl e win remote s =
     (if fServer s = None then Some ([], s)
      else case fWSHandler win of
             None \<Rightarrow> None
           | Some name \<Rightarrow>
               let addr = ''/web7gui/'' @ name @ (if fBatchMode win then ''/?batch_mode'' else ''/'')
               in if remote then
                    (case CreateHttpServer e True s of
                       (Inl err, s1) \<Rightarrow> Some ([], s1)
                     | (Inr u, s1) \<Rightarrow> Some (fAddr s1 @ addr, s1))
                  else Some (addr, s))"

subsection \<open>Show (lines 270-492)\<close>

text \<open>
  Lines 278-282, \<^verbatim>\<open>do { key = ...; } while ((--ntry > 0) && win.HasKey(key));\<close>. The
  result is the key, the value of \<open>ntry\<close> after the loop and the state.
\<close>

function gen_key :: "sysenv \<Rightarrow> webwindow \<Rightarrow> int \<Rightarrow> mstate \<Rightarrow> string \<times> int \<times> mstate" where
  "gen_key e win ntry s =
     (let key = to_string_nat (Integer e (draws s));
          s1 = s\<lparr>draws := draws s + 1\<rparr>
      in if ntry - 1 > 0 \<and> HasKey win key then gen_key e win (ntry - 1) s1
         else (key, ntry - 1, s1))"
  by pat_completeness auto
termination
  by (relation "measure (\<lambda>(e, win, ntry, s). nat ntry)") auto

declare gen_key.simps [simp del]

text \<open>
  Lines 288-293: the local URL of the window, and the key joined to it.
  \<^verbatim>\<open>addr.find("?") != std::string::npos\<close> holds when the character occurs in it.
\<close>

definition key_url :: "string \<Rightarrow> string \<Rightarrow> string" where
  "key_url addr key = addr @ (if CHR ''?'' \<in> set addr then ''&key='' else ''?key='') @ key"

definition Show_addr :: "sysenv \<Rightarrow> webwindow \<Rightarrow> string \<Rightarrow> mstate \<Rightarrow> (string \<times> mstate) option" where
  "Show_addr e win key s =
     (case GetUrl e win False s of
        None \<Rightarrow> None
      | Some (addr, s1) \<Rightarrow> Some (key_url addr key, s1))"

text \<open>
  Lines 329-335 and 352-357: the symbol is looked up, and looked up again after loading
  the library when it was not found.
\<close>

definition find_symbol :: "sysenv \<Rightarrow> string \<Rightarrow> string \<Rightarrow> mstate \<Rightarrow> bool \<times> mstate" where
  "find_symbol e symbol lib s =
     (if DynFindSymbol e (libs s) symbol then (True, s)
      else let s1 = s\<lparr>libs := libs s @ [lib]\<rparr> in (DynFindSymbol e (libs s1) symbol, s1))"

text \<open>
  Lines 323-347 (compiled with \<^verbatim>\<open>R__HAS_CEFWEB\<close>) and 349-367 (with \<^verbatim>\<open>R__HAS_QT5WEB\<close>):
  the window with its new key when the embedded engine was started, \<open>None\<close> when the
  block falls through.
\<close>

definition Show_cef ::
  "sysenv \<Rightarrow> build \<Rightarrow> webwindow \<Rightarrow> string \<Rightarrow> string \<Rightarrow> bool \<Rightarrow> bool \<Rightarrow> mstate \<Rightarrow> webwindow option \<times> mstate" where
  "Show_cef e b win key addr is_native is_cef s =
     (if \<not> HAS_CEFWEB b then (None, s)
      else case (Getenv e ''CEF_PATH'', Getenv e ''ROOTSYS'') of
             (Some cef_path, Some rootsys) \<Rightarrow>
               if \<not> AccessPathName e cef_path \<and> (is_native \<or> is_cef) then
                 (case find_symbol e ''webgui_start_browser_in_cef3'' ''libROOTCefDisplay'' s of
                    (True, s1) \<Rightarrow>
                      (Some (AddKey key ''cef'' win),
                       s1\<lparr>launched := launched s1 @
                            [CefStart addr (fBatchMode win) rootsys cef_path (fWidth win) (fHeight win)]\<rparr>)
                  | (False, s1) \<Rightarrow> (None, s1))
               else (None, s)
           | _ \<Rightarrow> (None, s))"

definition Show_qt5 ::
  "sysenv \<Rightarrow> build \<Rightarrow> webwindow \<Rightarrow> string \<Rightarrow> string \<Rightarrow> bool \<Rightarrow> bool \<Rightarrow> mstate \<Rightarrow> webwindow option \<times> mstate" where
  "Show_qt5 e b win key addr is_native is_qt5 s =
     (if HAS_QT5WEB b \<and> (is_native \<or> is_qt5) then
        (case find_symbol e ''webgui_start_browser_in_qt5'' ''libROOTQt5WebDisplay'' s of
           (True, s1) \<Rightarrow>
             (Some (AddKey key ''qt5'' win),
              s1\<lparr>launched := launched s1 @
                   [Qt5Start addr (fBatchMode win) (fWidth win) (fHeight win)]\<rparr>)
         | (False, s1) \<Rightarrow> (None, s1))
      else (None, s))"

text \<open>
  Modelled from the spec: TString is not among the sources. \<^verbatim>\<open>ReplaceAll(s1, s2)\<close>
  substitutes a placeholder wherever it occurs, from left to right, without reading the
  substituted text again; \<^verbatim>\<open>Tokenize(" ")\<close> splits "on whitespace", leaving no empty
  token.
\<close>

function ReplaceAll :: "string \<Rightarrow> string \<Rightarrow> string \<Rightarrow> string" where
  "ReplaceAll s1 s2 str =
     (if str = [] \<or> s1 = [] then str
      else if take (length s1) str = s1 then s2 @ ReplaceAll s1 s2 (drop (length s1) str)
      else hd str # ReplaceAll s1 s2 (tl str))"
  by pat_completeness auto
termination
  by (relation "measure (\<lambda>(s1, s2, str). length str)") auto

declare ReplaceAll.simps [simp del]

fun tokens :: "char \<Rightarrow> string \<Rightarrow> string \<Rightarrow> string list" where
  "tokens d cur [] = (if cur = [] then [] else [cur])"
| "tokens d cur (c # cs) =
     (if c = d then (if cur = [] then tokens d [] cs else cur # tokens d [] cs)
      else tokens d (cur @ [c]) cs)"

definition Tokenize :: "char \<Rightarrow> string \<Rightarrow> string list" where
  "Tokenize d str = tokens d [] str"

text \<open>Lines 382-396 and 411-416: the programs tried when none is configured.\<close>

definition testprogs_chrome :: "build \<Rightarrow> string list" where
  "testprogs_chrome b =
     (if MACOSX b then [''/Applications/Googl Chrome.app/Contents/MacOS/Google Chrome''] else []) @
     (if LINUX b then [''/usr/bin/chromium'', ''/usr/bin/chromium-browser'', ''/usr/bin/chrome-browser'']
      else [])"

definition testprogs_firefox :: "build \<Rightarrow> string list" where
  "testprogs_firefox b =
     (if MACOSX b then [''/Applications/Firefox.app/Contents/MacOS/firefox''] else []) @
     (if LINUX b then [''/usr/bin/firefox''] else [])"

text \<open>
  Lines 376-444: the program and the command template of the launch mode. The result is
  \<open>(prog, exec)\<close>.
\<close>

definition Show_exec ::
  "sysenv \<Rightarrow> build \<Rightarrow> webwindow \<Rightarrow> string \<Rightarrow> bool \<Rightarrow> bool \<Rightarrow> bool \<Rightarrow> bool \<Rightarrow> bool \<Rightarrow> string \<times> string" where
  "Show_exec e b win wh is_native is_qt5 is_cef is_chrome is_firefox =
     (let prog = (if is_chrome then GetValue_str (gEnv e) ''WebGui.Chrome'' []
                  else if is_firefox then GetValue_str (gEnv e) ''WebGui.Firefox'' []
                  else wh);
          testprogs = (if is_chrome then testprogs_chrome b
                       else if is_firefox then testprogs_firefox b
                       else []);
          exec =
            (if is_chrome then
               (if fBatchMode win
                then GetValue_str (gEnv e) ''WebGui.ChromeBatch''
                       ''fork:--headless --disable-gpu --disable-webgl --remote-debugging-socket-fd=0 $url''
                else GetValue_str (gEnv e) ''WebGui.ChromeInteractive''
                       ''$prog --window-size=$width,$height --app='$url' &'')
             else if is_firefox then
               (if fBatchMode win
                then GetValue_str (gEnv e) ''WebGui.FirefoxBatch''
                       ''fork:-headless -no-remote -window-size=$width,$height $url''
                else GetValue_str (gEnv e) ''WebGui.FirefoxInteractive'' ''$prog '$url' &'')
             else if \<not> is_native \<and> \<not> is_cef \<and> \<not> is_qt5 \<and> wh \<noteq> ''browser'' then
               (if CHR ''$'' \<in> set wh then wh else ''$prog $url &'')
             else if InheritsFrom e ''TMacOSXSystem'' then ''open '$url'' @ [CHR 0x27]
             else if InheritsFrom e ''TWinNTSystem'' then ''start $url''
             else ''xdg-open '$url' &'');
          prog = (if prog = [] then
                    (case find (\<lambda>p. \<not> AccessPathName e p) testprogs of
                       Some p \<Rightarrow> p
                     | None \<Rightarrow> wh)
                  else prog)
      in (prog, exec))"

text \<open>
  Lines 446-491: the placeholders are substituted and the client is started, by
  \<^verbatim>\<open>posix_spawn\<close> when the command begins with \<open>fork:\<close> and through the shell otherwise.
  \<^verbatim>\<open>args->GetLast() <= 0\<close> holds when there are fewer than two tokens.
\<close>

definition Show_launch ::
  "sysenv \<Rightarrow> build \<Rightarrow> webwindow \<Rightarrow> string \<Rightarrow> string \<Rightarrow> string \<Rightarrow> string \<Rightarrow> string \<Rightarrow> mstate
     \<Rightarrow> (error + unit) \<times> mstate \<times> webwindow" where
  "Show_launch e b win key wh prog exec0 addr s =
     (let swidth = to_string_nat (if fWidth win \<noteq> 0 then fWidth win else 800);
          sheight = to_string_nat (if fHeight win \<noteq> 0 then fHeight win else 600);
          exec = ReplaceAll ''$height'' sheight
                   (ReplaceAll ''$width'' swidth (ReplaceAll ''$url'' addr exec0))
      in if take 5 exec = ''fork:'' then
           (if MSC_VER b then (Inl ForkUnsupported, s, win)
            else
              let args = Tokenize CHR '' '' (drop 5 exec)
              in if length args \<le> 1 then (Inl NoArguments, s, win)
                 else
                   let argv = prog # args;
                       st = posix_spawn e prog argv;
                       s1 = s\<lparr>launched := launched s @ [Spawn prog argv]\<rparr>
                   in if fst st \<noteq> 0 then (Inl LaunchFailed, s1, win)
                      else (Inr (), s1, AddKey key (''pid:'' @ to_string (snd st)) win))
         else
           let prog = (if MACOSX b then ReplaceAll '' '' [CHR 0x5C, CHR '' ''] prog else prog);
               exec = ReplaceAll ''$prog'' prog exec
           in (Inr (), s\<lparr>launched := launched s @ [Exec exec]\<rparr>, AddKey key wh win))"

text \<open>
  Lines 307-492, with the launch mode already resolved into \<open>wh\<close> and the five flags:
  the batch mode is checked, and the client is started by the first way that applies.
\<close>

definition Show_modes ::
  "sysenv \<Rightarrow> build \<Rightarrow> webwindow \<Rightarrow> string \<Rightarrow> string \<Rightarrow> string \<Rightarrow> bool \<Rightarrow> bool \<Rightarrow> bool \<Rightarrow> bool \<Rightarrow> bool
     \<Rightarrow> mstate \<Rightarrow> (error + unit) \<times> mstate \<times> webwindow" where
  "Show_modes e b win key addr wh is_native is_qt5 is_cef is_chrome is_firefox s2 =
     (if fBatchMode win \<and> \<not> is_cef \<and> \<not> is_chrome \<and> \<not> is_firefox
      then (Inl BatchNeedsHeadless, s2, win)
      else if fBatchMode win \<and> is_cef \<and>
              (case Getenv e ''DISPLAY'' of None \<Rightarrow> True | Some displ \<Rightarrow> displ = [])
      then (Inl CefNeedsDisplay, s2, win)
      else
        (case Show_cef e b win key addr is_native is_cef s2 of
           (Some win1, s3) \<Rightarrow> (Inr (), s3, win1)
         | (None, s3) \<Rightarrow>
             (case Show_qt5 e b win key addr is_native is_qt5 s3 of
                (Some win1, s4) \<Rightarrow> (Inr (), s4, win1)
              | (None, s4) \<Rightarrow>
                  (case CreateHttpServer e True s4 of
                     (Inl err, s5) \<Rightarrow> (Inl NoRealHttp, s5, win)
                   | (Inr u, s5) \<Rightarrow>
                       let pe = Show_exec e b win wh is_native is_qt5 is_cef is_chrome is_firefox
                       in Show_launch e b win key wh (fst pe) (snd pe) (fAddr s5 @ addr) s5))))"

text \<open>
  Lines 295-305: the launch mode is resolved from \<^verbatim>\<open>where\<close> (\<open>where_arg\<close> is the
  parameter \<^verbatim>\<open>_where\<close> and \<open>wh\<close> the local \<^verbatim>\<open>where\<close>); with \<^verbatim>\<open>R__HAS_CEFWEB\<close> the
  native mode is the embedded Chromium.
\<close>

definition Show_display ::
  "sysenv \<Rightarrow> build \<Rightarrow> webwindow \<Rightarrow> string \<Rightarrow> string \<Rightarrow> string \<Rightarrow> mstate
     \<Rightarrow> (error + unit) \<times> mstate \<times> webwindow" where
  "Show_display e b win key addr where_arg s2 =
     (let wh = (if where_arg = [] then WebDisplay e else where_arg);
          is_native = (wh = [] \<or> wh = ''native'');
          is_qt5 = (wh = ''qt5'');
          is_cef = (wh = ''cef'' \<or> (HAS_CEFWEB b \<and> is_native));
          is_chrome = (wh = ''chrome'' \<or> wh = ''chromium'');
          is_firefox = (wh = ''firefox'')
      in Show_modes e b win key addr wh is_native is_qt5 is_cef is_chrome is_firefox s2)"

text \<open>
  Show itself: the server must exist, a key is generated, the URL is built and the window
  is displayed. The result is \<open>None\<close> where GetUrl has none.
\<close>

definition Show ::
  "sysenv \<Rightarrow> build \<Rightarrow> webwindow \<Rightarrow> string \<Rightarrow> mstate \<Rightarrow> ((error + unit) \<times> mstate \<times> webwindow) option" where
  "Show e b win where_arg s =
     (if fServer s = None then Some (Inl NoServer, s, win)
      else
        let g = gen_key e win 1000 s;
            key = fst g;
            ntry = fst (snd g);
            s1 = snd (snd g)
        in if ntry = 0 then Some (Inl NoUniqueKey, s1, win)
           else
             case Show_addr e win key s1 of
               None \<Rightarrow> None
             | Some (addr, s2) \<Rightarrow> Some (Show_display e b win key addr where_arg s2))"

subsection \<open>WaitFor (lines 520-543)\<close>

text \<open>
  The predicate may keep a state of its own: \<open>check n spent\<close> is what its \<open>n\<close>-th call
  (counted from 0, the value of \<^verbatim>\<open>cnt\<close>) returns when given \<open>spent\<close>. The loop may run
  for ever, so the result is optional: \<open>None\<close> when WaitFor does not return.
\<close>

partial_function (option) WaitFor_loop ::
  "(nat \<Rightarrow> real \<Rightarrow> int) \<Rightarrow> (nat \<Rightarrow> real) \<Rightarrow> real \<Rightarrow> nat \<Rightarrow> real \<Rightarrow> int option" where
  "WaitFor_loop check clock timelimit cnt spent =
     (if check cnt spent \<noteq> 0 then Some (check cnt spent)
      else if timelimit > 0 \<and> clock cnt > timelimit then Some 0
      else WaitFor_loop check clock timelimit (cnt + 1) (clock cnt))"

definition WaitFor :: "sysenv \<Rightarrow> (nat \<Rightarrow> real \<Rightarrow> int) \<Rightarrow> real \<Rightarrow> int option" where
  "WaitFor e check timelimit =
     (let timelimit = (if timelimit < 0 then GetValue_dbl (gEnv e) ''WebGui.WaitForTmout'' 100
                       else timelimit)
      in WaitFor_loop check (RealTime e) timelimit 0 0)"

text \<open>
  What \<^verbatim>\<open>spent\<close> holds when the predicate is called for the \<open>n\<close>-th time: 0 at the
  first call, and then the reading of the stopwatch after the sleep before the call.
\<close>

definition spent_at :: "(nat \<Rightarrow> real) \<Rightarrow> nat \<Rightarrow> real" where
  "spent_at clock n = (case n of 0 \<Rightarrow> 0 | Suc m \<Rightarrow> clock m)"

subsection \<open>A concrete process\<close>

text \<open>
  An environment with nothing configured, in which every engine binds, no path can be
  accessed, no symbol is found and every spawn succeeds; and a Linux build without the
  embedded engines. The concrete runs below start from them.
\<close>

definition plain_env :: sysenv where
  "plain_env =
     \<lparr>gEnv = \<lparr>ints = Map.empty, strs = Map.empty, dbls = Map.empty\<rparr>,
      Rndm = (\<lambda>n. 1 / 2),
      Integer = (\<lambda>n. n),
      CreateEngine = (\<lambda>n spec. True),
      WebDisplay = [],
      WebDisplayBatch = False,
      Getenv = Map.empty,
      AccessPathName = (\<lambda>path. True),
      DynFindSymbol = (\<lambda>libs symbol. False),
      InheritsFrom = (\<lambda>cls. False),
      posix_spawn = (\<lambda>path argv. (0, 4711)),
      handler_name = (\<lambda>id. ''win'' @ to_string_nat id),
      RealTime = (\<lambda>n. (of_nat n + 1) / 100)\<rparr>"

definition linux_build :: build where
  "linux_build = \<lparr>HAS_CEFWEB = False, HAS_QT5WEB = False, MACOSX = False, LINUX = True,
                   MSC_VER = False, with_http_dflt = False\<rparr>"

text \<open>
  The same process where the embedded Chromium can be started (the display and the two
  paths are set, the path is accessible, the symbol is found) and the generator draws 42;
  a build with \<^verbatim>\<open>R__HAS_CEFWEB\<close> and a build with \<^verbatim>\<open>R__HAS_QT5WEB\<close>.
\<close>

definition cef_env :: sysenv where
  "cef_env = plain_env\<lparr>Integer := (\<lambda>n. 42),
                        Getenv := [''DISPLAY'' \<mapsto> '':0'', ''CEF_PATH'' \<mapsto> ''/opt/cef'', ''ROOTSYS'' \<mapsto> ''/opt/root''],
                        AccessPathName := (\<lambda>path. False),
                        DynFindSymbol := (\<lambda>libs symbol. True)\<rparr>"

definition cef_build :: build where
  "cef_build = linux_build\<lparr>HAS_CEFWEB := True\<rparr>"

definition qt5_build :: build where
  "qt5_build = linux_build\<lparr>HAS_QT5WEB := True\<rparr>"

section \<open>Properties\<close>

subsection \<open>Properties of HaltClient\<close>

lemma HaltClient_other_shape:
  "take 4 procid \<noteq> ''pid:'' \<Longrightarrow> HaltClient procid killed = Inr killed"
  by (simp add: HaltClient_def)

lemma to_string_nat_digits: "list_all isdigit (to_string_nat n)"
proof (induction n rule: to_string_nat.induct)
  case (1 n)
  have d: "isdigit (''0123456789'' ! k)" if "k < 10" for k
  proof -
    from that have "k \<in> {0,1,2,3,4,5,6,7,8,9}" by auto
    then show ?thesis by (auto simp: isdigit_def)
  qed
  show ?case
  proof (cases "n < 10")
    case True
    then show ?thesis by (subst to_string_nat.simps) (simp add: d)
  next
    case False
    with 1 show ?thesis by (subst to_string_nat.simps) (simp add: d)
  qed
qed

text \<open>
  The tag that Show records after a spawn, \<open>pid:\<close> and the decimal process id, is read
  back as that id, and the signal goes to it.
\<close>

lemma digit_nth:
  assumes "k < 10"
  shows "isdigit (''0123456789'' ! k) \<and> \<not> isspace (''0123456789'' ! k) \<and>
         ''0123456789'' ! k \<noteq> CHR ''-'' \<and> ''0123456789'' ! k \<noteq> CHR ''+'' \<and>
         digit_val (''0123456789'' ! k) = int k"
proof -
  from assms have "k \<in> {0,1,2,3,4,5,6,7,8,9}" by auto
  then show ?thesis by (auto simp: isdigit_def isspace_def digit_val_def)
qed

lemma to_string_nat_nonempty: "to_string_nat n \<noteq> []"
  by (subst to_string_nat.simps) simp

lemma to_string_nat_hd:
  "\<not> isspace (hd (to_string_nat n)) \<and> hd (to_string_nat n) \<noteq> CHR ''-'' \<and> hd (to_string_nat n) \<noteq> CHR ''+''"
proof (induction n rule: to_string_nat.induct)
  case (1 n)
  show ?case
  proof (cases "n < 10")
    case True
    then show ?thesis by (subst (1 2 3) to_string_nat.simps) (simp add: digit_nth)
  next
    case False
    with 1 show ?thesis
      by (subst (1 2 3) to_string_nat.simps) (simp add: to_string_nat_nonempty)
  qed
qed

lemma decimal_to_string_nat: "decimal (to_string_nat n) = int n"
proof (induction n rule: to_string_nat.induct)
  case (1 n)
  show ?case
  proof (cases "n < 10")
    case True
    then show ?thesis by (subst to_string_nat.simps) (simp add: decimal_def digit_nth)
  next
    case False
    then have "decimal (to_string_nat (n div 10)) = int (n div 10)" by (rule 1)
    with False show ?thesis
      by (subst to_string_nat.simps) (simp add: decimal_def digit_nth zdiv_int zmod_int)
  qed
qed

lemma stoi_to_string_nat:
  "stoi (to_string_nat n) = (if 2 ^ 31 - 1 < int n then Inl out_of_range else Inr (int n))"
proof -
  have d: "dropWhile isspace (to_string_nat n) = to_string_nat n"
    using to_string_nat_hd[of n] to_string_nat_nonempty[of n]
    by (cases "to_string_nat n") auto
  have t: "takeWhile isdigit (to_string_nat n) = to_string_nat n"
    using to_string_nat_digits[of n] by (simp add: list_all_iff)
  show ?thesis
    using to_string_nat_hd[of n] to_string_nat_nonempty[of n]
    by (simp add: stoi_def d t Let_def decimal_to_string_nat)
qed

lemma HaltClient_pid:
  assumes "0 < pid" and "pid < 2 ^ 31"
  shows "HaltClient (''pid:'' @ to_string pid) killed = Inr (killed @ [pid])"
  using assms by (simp add: HaltClient_def to_string_def stoi_to_string_nat)

text \<open>Some tags: a process id, ids that are not positive, other shapes, and garbage.\<close>

lemma HaltClient_examples:
  "HaltClient ''pid:4711'' [] = Inr [4711]"
  "HaltClient ''pid:0'' [] = Inr []"
  "HaltClient ''pid:-5'' [] = Inr []"
  "HaltClient ''cef'' [] = Inr []"
  "HaltClient ''pid:99999999999'' [] = Inl out_of_range"
  "HaltClient ''pid:'' [] = Inl invalid_argument"
  "HaltClient ''pid:12abc'' [] = Inr [12]"
  by (simp_all add: HaltClient_def stoi_def isspace_def isdigit_def decimal_def digit_val_def Let_def)

text \<open>
  C1. The claim is that HaltClient never raises an error to its caller, whatever the tag.
  On the tag \<open>pid:abc\<close> the prefix test passes, \<^verbatim>\<open>std::stoi\<close> finds no digit and throws
  \<^verbatim>\<open>std::invalid_argument\<close>, which HaltClient lets through.
\<close>

theorem HaltClient_garbage_pid_throws:
  "HaltClient ''pid:abc'' killed = Inl invalid_argument"
  by (simp add: HaltClient_def stoi_def isspace_def isdigit_def)

subsection \<open>Properties of CreateHttpServer\<close>

lemma bind_attempt_frame:
  "fServer (snd (snd (bind_attempt e c p s))) = fServer s"
  "fAddr (snd (snd (bind_attempt e c p s))) = fAddr s"
  "fIdCnt (snd (snd (bind_attempt e c p s))) = fIdCnt s"
  "registered (snd (snd (bind_attempt e c p s))) = registered s"
  "libs (snd (snd (bind_attempt e c p s))) = libs s"
  "launched (snd (snd (bind_attempt e c p s))) = launched s"
  "length (engines (snd (snd (bind_attempt e c p s)))) = Suc (length (engines s))"
  by (simp_all add: bind_attempt_def Let_def)

text \<open>The loop touches the address, the random generator and the engines only.\<close>

lemma bind_loop_frame:
  "bind_loop e c ntry p s = (r, s') \<Longrightarrow>
     fServer s' = fServer s \<and> fIdCnt s' = fIdCnt s \<and> registered s' = registered s \<and>
     libs s' = libs s \<and> launched s' = launched s"
proof (induction e c ntry p s rule: bind_loop.induct)
  case (1 e c ntry http_port s)
  note IH = "1.IH"[OF _ _ refl]
  show ?case using "1.prems" IH
    by (auto simp: bind_loop.simps[of e c ntry http_port s] Let_def bind_attempt_frame split: if_splits)
qed

text \<open>A failed loop leaves the address as it was; a successful one has set it.\<close>

lemma bind_loop_Inl:
  "bind_loop e c ntry p s = (Inl err, s') \<Longrightarrow> fAddr s' = fAddr s"
proof (induction e c ntry p s rule: bind_loop.induct)
  case (1 e c ntry http_port s)
  note IH = "1.IH"[OF _ _ refl]
  show ?case using "1.prems" IH
    by (auto simp: bind_loop.simps[of e c ntry http_port s] Let_def bind_attempt_frame split: if_splits)
qed

lemma bind_loop_Inr:
  "bind_loop e c ntry p s = (Inr u, s') \<Longrightarrow> fAddr s' \<noteq> []"
proof (induction e c ntry p s rule: bind_loop.induct)
  case (1 e c ntry http_port s)
  note IH = "1.IH"[OF _ _ refl]
  show ?case using "1.prems" IH
    by (auto simp: bind_loop.simps[of e c ntry http_port s] Let_def engine_url_def split: if_splits)
qed

text \<open>
  The loop entered with \<open>ntry\<close> makes at most \<open>ntry + 1\<close> attempts, and exactly that many
  when the range is valid and no engine binds.
\<close>

lemma bind_loop_attempts:
  "bind_loop e c ntry p s = (r, s') \<Longrightarrow>
     length (engines s) \<le> length (engines s') \<and>
     int (length (engines s')) \<le> int (length (engines s)) + max 0 (ntry + 1)"
proof (induction e c ntry p s rule: bind_loop.induct)
  case (1 e c ntry http_port s)
  note IH = "1.IH"[OF _ _ refl]
  show ?case using "1.prems" IH
    by (auto simp: bind_loop.simps[of e c ntry http_port s] Let_def bind_attempt_frame split: if_splits)
qed

lemma bind_loop_all_fail:
  "\<forall>n spec. \<not> CreateEngine e n spec \<Longrightarrow> 0 < http_min c \<Longrightarrow> http_min c < http_max c \<Longrightarrow>
   bind_loop e c ntry p s = (r, s') \<Longrightarrow>
     r = Inl BindFailed \<and> int (length (engines s')) = int (length (engines s)) + max 0 (ntry + 1)"
proof (induction e c ntry p s arbitrary: r s' rule: bind_loop.induct)
  case (1 e c ntry http_port s)
  note IH = "1.IH"[OF _ _ refl]
  have nf: "\<not> fst (bind_attempt e c http_port s)"
    using "1.prems"(1) by (simp add: bind_attempt_def Let_def)
  show ?case using "1.prems" IH nf
    by (auto simp: bind_loop.simps[of e c ntry http_port s] Let_def bind_attempt_frame split: if_splits)
qed

lemma CreateHttpServer_fServer:
  "CreateHttpServer e w s = (r, s') \<Longrightarrow> fServer s' \<noteq> None"
  by (auto simp: CreateHttpServer_def Let_def split: if_splits dest!: bind_loop_frame)

lemma CreateHttpServer_fIdCnt:
  "CreateHttpServer e w s = (r, s') \<Longrightarrow> fIdCnt s' = fIdCnt s"
  by (auto simp: CreateHttpServer_def Let_def split: if_splits dest!: bind_loop_frame)

lemma CreateHttpServer_bound:
  "CreateHttpServer e True s = (Inr u, s') \<Longrightarrow> fAddr s' \<noteq> []"
  by (auto simp: CreateHttpServer_def Let_def split: if_splits dest!: bind_loop_Inr)

lemma CreateHttpServer_Inl:
  "CreateHttpServer e w s = (Inl err, s') \<Longrightarrow> fAddr s' = fAddr s"
  by (auto simp: CreateHttpServer_def Let_def split: if_splits dest!: bind_loop_Inl)

lemma CreateHttpServer_launched:
  "CreateHttpServer e w s = (r, s') \<Longrightarrow> launched s' = launched s"
  by (auto simp: CreateHttpServer_def Let_def split: if_splits dest!: bind_loop_frame)

text \<open>
  Within 32 bits \<open>int32\<close> changes nothing, its value is always within 32 bits, and so
  is every integer looked up in the configuration with a default that is.
\<close>

lemma int32_id: "- (2 ^ 31) \<le> x \<Longrightarrow> x < 2 ^ 31 \<Longrightarrow> int32 x = x"
  by (simp add: int32_def)

lemma int32_range: "- (2 ^ 31) \<le> int32 x \<and> int32 x < 2 ^ 31"
proof -
  have "0 \<le> (x + 2 ^ 31) mod 2 ^ 32" and "(x + 2 ^ 31) mod 2 ^ 32 < (2 ^ 32 :: int)"
    by simp_all
  then show ?thesis by (simp add: int32_def)
qed

lemma GetValue_int_range:
  assumes "- (2 ^ 31) \<le> dflt" and "dflt < 2 ^ 31"
  shows "- (2 ^ 31) \<le> GetValue_int env name dflt \<and> GetValue_int env name dflt < 2 ^ 31"
proof (cases "ints env name")
  case None
  with assms show ?thesis by (simp add: GetValue_int_def)
next
  case (Some v)
  have "- (2 ^ 31) \<le> sint v" and "sint v < 2 ^ 31"
    using sint_ge[of v] sint_lt[of v] by simp_all
  with Some show ?thesis by (simp add: GetValue_int_def)
qed

text \<open>
  The number of bind attempts of one call, in general: never more than one above the
  lesser of 100 and the 32-bit difference of the range, and exactly
  \<open>min 100 (max - min) + 1\<close> when the range is valid and every attempt fails.
\<close>

lemma CreateHttpServer_attempts_bound:
  assumes "CreateHttpServer e True s = (r, s')"
  shows "int (length (engines s')) \<le> int (length (engines s)) +
           max 0 (min 100 (int32 (GetValue_int (gEnv e) ''WebGui.HttpPortMax'' 9800
                                  - GetValue_int (gEnv e) ''WebGui.HttpPortMin'' 8800)) + 1)"
  using assms
  by (auto simp: CreateHttpServer_def Let_def split: if_splits dest!: bind_loop_attempts)

lemma CreateHttpServer_attempts_all_fail:
  assumes "fAddr s = []" and "\<forall>n spec. \<not> CreateEngine e n spec"
    and "0 \<le> GetValue_int (gEnv e) ''WebGui.HttpPort'' 0"
    and "0 < GetValue_int (gEnv e) ''WebGui.HttpPortMin'' 8800"
    and "GetValue_int (gEnv e) ''WebGui.HttpPortMin'' 8800 < GetValue_int (gEnv e) ''WebGui.HttpPortMax'' 9800"
  shows "fst (CreateHttpServer e True s) = Inl BindFailed \<and>
         fAddr (snd (CreateHttpServer e True s)) = [] \<and>
         int (length (engines (snd (CreateHttpServer e True s)))) =
           int (length (engines s)) +
           min 100 (GetValue_int (gEnv e) ''WebGui.HttpPortMax'' 9800
                    - GetValue_int (gEnv e) ''WebGui.HttpPortMin'' 8800) + 1"
proof -
  obtain r s' where rs: "CreateHttpServer e True s = (r, s')"
    by (cases "CreateHttpServer e True s")
  have "GetValue_int (gEnv e) ''WebGui.HttpPortMax'' 9800 < 2 ^ 31"
    using GetValue_int_range[of 9800 "gEnv e" "''WebGui.HttpPortMax''"] by simp
  with assms(4,5)
  have d: "int32 (GetValue_int (gEnv e) ''WebGui.HttpPortMax'' 9800
                  - GetValue_int (gEnv e) ''WebGui.HttpPortMin'' 8800) =
           GetValue_int (gEnv e) ''WebGui.HttpPortMax'' 9800
                  - GetValue_int (gEnv e) ''WebGui.HttpPortMin'' 8800"
    by (intro int32_id) simp_all
  have "r = Inl BindFailed \<and> int (length (engines s')) = int (length (engines s)) +
           min 100 (GetValue_int (gEnv e) ''WebGui.HttpPortMax'' 9800
                    - GetValue_int (gEnv e) ''WebGui.HttpPortMin'' 8800) + 1"
    using assms rs
    by (auto simp: CreateHttpServer_def Let_def d split: if_splits dest!: bind_loop_all_fail[rotated 3])
  moreover from this rs assms(1) have "fAddr s' = []"
    using CreateHttpServer_Inl by fastforce
  ultimately show ?thesis using rs by simp
qed

text \<open>
  Where the difference of the range leaves 32 bits: with the least \<^verbatim>\<open>int\<close> as the
  minimum the difference \<open>9800 + 2^31\<close> is kept as a negative number, the loop is not
  entered and the call returns false with no report and no attempt.
\<close>

lemma CreateHttpServer_overflowing_range:
  "CreateHttpServer
     (plain_env\<lparr>gEnv := \<lparr>ints = [''WebGui.HttpPortMin'' \<mapsto> - 2147483648], strs = Map.empty, dbls = Map.empty\<rparr>\<rparr>)
     True TWebWindowsManager =
   (Inl BindFailed, TWebWindowsManager\<lparr>fServer := Some (THttpServer ''basic_sniffer'')\<rparr>)"
  by (simp add: CreateHttpServer_def plain_env_def TWebWindowsManager_def GetValue_int_def
      GetValue_str_def bind_loop.simps Let_def int32_def)

text \<open>
  C3. The claim is that a call makes at most \<open>min(100, maxPort - minPort)\<close> bind
  attempts. With the range 8800 to 8801, which holds one port, and no engine binding, the
  call fails and leaves no address, as the claim says, but it has asked for an engine
  twice, not once: the loop test \<^verbatim>\<open>ntry-- >= 0\<close> lets \<open>ntry + 1\<close> rounds through.
\<close>

theorem CreateHttpServer_one_port_two_attempts:
  "CreateHttpServer
     (plain_env\<lparr>gEnv := \<lparr>ints = [''WebGui.HttpPortMin'' \<mapsto> 8800, ''WebGui.HttpPortMax'' \<mapsto> 8801],
                          strs = Map.empty, dbls = Map.empty\<rparr>,
                 CreateEngine := (\<lambda>n spec. False)\<rparr>)
     True TWebWindowsManager =
   (Inl BindFailed,
    TWebWindowsManager\<lparr>fServer := Some (THttpServer ''basic_sniffer''), draws := 2,
       engines := [''http:8800?websocket_timeout=10000'', ''http:8800?websocket_timeout=10000'']\<rparr>)"
  by (simp add: CreateHttpServer_def plain_env_def TWebWindowsManager_def GetValue_int_def
      GetValue_str_def bind_loop.simps bind_attempt_def Let_def trunc_def engine_spec_def engine_url_def
      to_string_def to_string_nat.simps int32_def)

text \<open>
  The same run, counted: two attempts, where \<open>min(100, maxPort - minPort)\<close> is one, and
  no address stored.
\<close>

theorem CreateHttpServer_one_port_two_attempts_witness:
  "length (engines (snd (CreateHttpServer
     (plain_env\<lparr>gEnv := \<lparr>ints = [''WebGui.HttpPortMin'' \<mapsto> 8800, ''WebGui.HttpPortMax'' \<mapsto> 8801],
                          strs = Map.empty, dbls = Map.empty\<rparr>,
                 CreateEngine := (\<lambda>n spec. False)\<rparr>)
     True TWebWindowsManager))) = 2 \<and>
   min 100 (8801 - 8800) = (1 :: int) \<and>
   fAddr (snd (CreateHttpServer
     (plain_env\<lparr>gEnv := \<lparr>ints = [''WebGui.HttpPortMin'' \<mapsto> 8800, ''WebGui.HttpPortMax'' \<mapsto> 8801],
                          strs = Map.empty, dbls = Map.empty\<rparr>,
                 CreateEngine := (\<lambda>n spec. False)\<rparr>)
     True TWebWindowsManager)) = []"
  using CreateHttpServer_one_port_two_attempts
  by (simp add: TWebWindowsManager_def)

text \<open>
  C6, as stated: an invalid range is an immediate error, before any bind attempt. It is
  not when a fixed port is configured: with the port 8088 and a minimum of 0 the range is
  never looked at, the engine is asked for on port 8088 and the call succeeds.
\<close>

theorem CreateHttpServer_fixed_port_skips_range_check:
  "GetValue_int (gEnv (plain_env\<lparr>gEnv := \<lparr>ints = [''WebGui.HttpPort'' \<mapsto> 8088, ''WebGui.HttpPortMin'' \<mapsto> 0],
                          strs = Map.empty, dbls = Map.empty\<rparr>\<rparr>)) ''WebGui.HttpPortMin'' 8800 \<le> 0 \<and>
   CreateHttpServer
     (plain_env\<lparr>gEnv := \<lparr>ints = [''WebGui.HttpPort'' \<mapsto> 8088, ''WebGui.HttpPortMin'' \<mapsto> 0],
                          strs = Map.empty, dbls = Map.empty\<rparr>\<rparr>)
     True TWebWindowsManager =
   (Inr (),
    TWebWindowsManager\<lparr>fServer := Some (THttpServer ''basic_sniffer''),
       fAddr := ''http://localhost:8088'',
       engines := [''http:8088?websocket_timeout=10000'']\<rparr>)"
  by (simp add: CreateHttpServer_def plain_env_def TWebWindowsManager_def GetValue_int_def
      GetValue_str_def bind_loop.simps bind_attempt_def Let_def trunc_def engine_spec_def engine_url_def
      to_string_def to_string_nat.simps int32_def)

text \<open>
  C6, amended: when no address is bound yet, CreateHttpServer with the network fails
  before any bind attempt (no engine is asked for and no address is stored) whenever the
  fixed port is negative, which is reported as the error of line 117; and also whenever
  the maximum is not above the minimum or the minimum is not positive, provided that no
  fixed port is configured (the port is 0) or that the 32-bit difference of maximum and
  minimum is negative (as it is, short of overflow, when the maximum is below the
  minimum). When no fixed port is configured and that difference is not negative, the
  failure is the range error of line 130.
\<close>

theorem CreateHttpServer_config_error:
  assumes "fAddr s = []"
  shows "(GetValue_int (gEnv e) ''WebGui.HttpPort'' 0 < 0 \<longrightarrow>
            fst (CreateHttpServer e True s) = Inl HttpNotAllowed \<and>
            engines (snd (CreateHttpServer e True s)) = engines s \<and>
            fAddr (snd (CreateHttpServer e True s)) = []) \<and>
         ((GetValue_int (gEnv e) ''WebGui.HttpPortMax'' 9800 \<le> GetValue_int (gEnv e) ''WebGui.HttpPortMin'' 8800 \<or>
           GetValue_int (gEnv e) ''WebGui.HttpPortMin'' 8800 \<le> 0) \<and>
          (GetValue_int (gEnv e) ''WebGui.HttpPort'' 0 = 0 \<or>
           0 < GetValue_int (gEnv e) ''WebGui.HttpPort'' 0 \<and>
           int32 (GetValue_int (gEnv e) ''WebGui.HttpPortMax'' 9800
                  - GetValue_int (gEnv e) ''WebGui.HttpPortMin'' 8800) < 0) \<longrightarrow>
            isl (fst (CreateHttpServer e True s)) \<and>
            engines (snd (CreateHttpServer e True s)) = engines s \<and>
            fAddr (snd (CreateHttpServer e True s)) = []) \<and>
         ((GetValue_int (gEnv e) ''WebGui.HttpPortMax'' 9800 \<le> GetValue_int (gEnv e) ''WebGui.HttpPortMin'' 8800 \<or>
           GetValue_int (gEnv e) ''WebGui.HttpPortMin'' 8800 \<le> 0) \<and>
          GetValue_int (gEnv e) ''WebGui.HttpPort'' 0 = 0 \<and>
          0 \<le> int32 (GetValue_int (gEnv e) ''WebGui.HttpPortMax'' 9800
                       - GetValue_int (gEnv e) ''WebGui.HttpPortMin'' 8800) \<longrightarrow>
            fst (CreateHttpServer e True s) = Inl WrongHttpRange)"
  using assms
  by (auto simp: CreateHttpServer_def Let_def bind_loop.simps)

theorem CreateHttpServer_config_error_witness:
  "fst (CreateHttpServer
          (plain_env\<lparr>gEnv := \<lparr>ints = [''WebGui.HttpPort'' \<mapsto> - 1], strs = Map.empty, dbls = Map.empty\<rparr>\<rparr>)
          True TWebWindowsManager) = Inl HttpNotAllowed \<and>
   engines (snd (CreateHttpServer
          (plain_env\<lparr>gEnv := \<lparr>ints = [''WebGui.HttpPort'' \<mapsto> - 1], strs = Map.empty, dbls = Map.empty\<rparr>\<rparr>)
          True TWebWindowsManager)) = [] \<and>
   fst (CreateHttpServer
          (plain_env\<lparr>gEnv := \<lparr>ints = [''WebGui.HttpPortMin'' \<mapsto> 0], strs = Map.empty, dbls = Map.empty\<rparr>\<rparr>)
          True TWebWindowsManager) = Inl WrongHttpRange \<and>
   engines (snd (CreateHttpServer
          (plain_env\<lparr>gEnv := \<lparr>ints = [''WebGui.HttpPortMin'' \<mapsto> 0], strs = Map.empty, dbls = Map.empty\<rparr>\<rparr>)
          True TWebWindowsManager)) = [] \<and>
   isl (fst (CreateHttpServer
          (plain_env\<lparr>gEnv := \<lparr>ints = [''WebGui.HttpPort'' \<mapsto> 8088, ''WebGui.HttpPortMin'' \<mapsto> 9000,
                                        ''WebGui.HttpPortMax'' \<mapsto> 8000],
                               strs = Map.empty, dbls = Map.empty\<rparr>\<rparr>)
          True TWebWindowsManager)) \<and>
   engines (snd (CreateHttpServer
          (plain_env\<lparr>gEnv := \<lparr>ints = [''WebGui.HttpPort'' \<mapsto> 8088, ''WebGui.HttpPortMin'' \<mapsto> 9000,
                                        ''WebGui.HttpPortMax'' \<mapsto> 8000],
                               strs = Map.empty, dbls = Map.empty\<rparr>\<rparr>)
          True TWebWindowsManager)) = []"
  using
    CreateHttpServer_config_error [of TWebWindowsManager
      "plain_env\<lparr>gEnv := \<lparr>ints = [''WebGui.HttpPort'' \<mapsto> - 1], strs = Map.empty, dbls = Map.empty\<rparr>\<rparr>"]
    CreateHttpServer_config_error [of TWebWindowsManager
      "plain_env\<lparr>gEnv := \<lparr>ints = [''WebGui.HttpPortMin'' \<mapsto> 0], strs = Map.empty, dbls = Map.empty\<rparr>\<rparr>"]
    CreateHttpServer_config_error [of TWebWindowsManager
      "plain_env\<lparr>gEnv := \<lparr>ints = [''WebGui.HttpPort'' \<mapsto> 8088, ''WebGui.HttpPortMin'' \<mapsto> 9000,
                                        ''WebGui.HttpPortMax'' \<mapsto> 8000],
                               strs = Map.empty, dbls = Map.empty\<rparr>\<rparr>"]
  by (simp add: TWebWindowsManager_def GetValue_int_def plain_env_def int32_def)

text \<open>
  C8. Once a call of CreateHttpServer with the network has succeeded, an address is
  stored, and a second call, whatever the environment then answers, succeeds and leaves
  the whole state as it is: the same address, and no further engine asked for.
\<close>

theorem CreateHttpServer_idempotent:
  assumes "CreateHttpServer e True s = (Inr u, s1)"
  shows "CreateHttpServer e' True s1 = (Inr (), s1) \<and> fAddr s1 \<noteq> [] \<and>
         fAddr (snd (CreateHttpServer e' True s1)) = fAddr s1 \<and>
         engines (snd (CreateHttpServer e' True s1)) = engines s1"
proof -
  have "fServer s1 \<noteq> None" using assms by (rule CreateHttpServer_fServer)
  moreover have "fAddr s1 \<noteq> []" using assms by (rule CreateHttpServer_bound)
  ultimately show ?thesis by (auto simp: CreateHttpServer_def)
qed

lemma plain_env_first_bind:
  "CreateHttpServer plain_env True TWebWindowsManager =
     (Inr (), TWebWindowsManager\<lparr>fServer := Some (THttpServer ''basic_sniffer''),
        fAddr := ''http://localhost:9300'', draws := 1,
        engines := [''http:9300?websocket_timeout=10000'']\<rparr>)"
  by (simp add: CreateHttpServer_def plain_env_def TWebWindowsManager_def GetValue_int_def
      GetValue_str_def bind_loop.simps bind_attempt_def Let_def trunc_def engine_spec_def engine_url_def
      to_string_def to_string_nat.simps int32_def)

theorem CreateHttpServer_idempotent_witness:
  "CreateHttpServer plain_env True TWebWindowsManager =
     (Inr (), TWebWindowsManager\<lparr>fServer := Some (THttpServer ''basic_sniffer''),
        fAddr := ''http://localhost:9300'', draws := 1,
        engines := [''http:9300?websocket_timeout=10000'']\<rparr>) \<and>
   CreateHttpServer (plain_env\<lparr>CreateEngine := (\<lambda>n spec. False)\<rparr>) True
     (TWebWindowsManager\<lparr>fServer := Some (THttpServer ''basic_sniffer''),
        fAddr := ''http://localhost:9300'', draws := 1,
        engines := [''http:9300?websocket_timeout=10000'']\<rparr>) =
     (Inr (), TWebWindowsManager\<lparr>fServer := Some (THttpServer ''basic_sniffer''),
        fAddr := ''http://localhost:9300'', draws := 1,
        engines := [''http:9300?websocket_timeout=10000'']\<rparr>)"
  using CreateHttpServer_idempotent [OF plain_env_first_bind, of "plain_env\<lparr>CreateEngine := (\<lambda>n spec. False)\<rparr>"]
    plain_env_first_bind
  by simp

subsection \<open>Properties of CreateWindow and Unregister\<close>

text \<open>A window that is created takes the next value of the counter as its id.\<close>

lemma CreateWindow_id:
  "CreateWindow e b bm s = (Some win, s') \<Longrightarrow> fId win = fIdCnt s + 1 \<and> fIdCnt s' = fIdCnt s + 1"
  by (auto simp: CreateWindow_def Let_def CreateWSHandler_def split: prod.splits sum.splits
      dest: CreateHttpServer_fIdCnt)

lemma CreateWindow_none:
  "CreateWindow e b bm s = (None, s') \<Longrightarrow> fIdCnt s' = fIdCnt s"
  by (auto simp: CreateWindow_def Let_def split: prod.splits sum.splits dest: CreateHttpServer_fIdCnt)

lemma Unregister_fIdCnt:
  "Unregister win s = Some s' \<Longrightarrow> fIdCnt s' = fIdCnt s"
  by (auto simp: Unregister_def split: option.splits if_splits)

text \<open>
  Along any life of the manager the ids given out increase strictly, and they lie above
  the counter at the start and not above the counter at the end.
\<close>

lemma run_ids:
  "run e b ops s = Some (ids, s') \<Longrightarrow>
     sorted_wrt (<) ids \<and> (\<forall>i \<in> set ids. fIdCnt s < i \<and> i \<le> fIdCnt s') \<and> fIdCnt s \<le> fIdCnt s'"
proof (induction ops arbitrary: s ids s')
  case Nil
  then show ?case by simp
next
  case (Cons x ops)
  show ?case
  proof (cases x)
    case (Create batch_mode)
    obtain w s1 where cw: "CreateWindow e b batch_mode s = (w, s1)"
      by (cases "CreateWindow e b batch_mode s")
    show ?thesis
    proof (cases w)
      case None
      with cw Create Cons.prems have r: "run e b ops s1 = Some (ids, s')" by simp
      from Cons.IH[OF r] CreateWindow_none[OF cw[unfolded None]] show ?thesis by auto
    next
      case (Some win)
      with cw Create Cons.prems obtain ids1
        where r: "run e b ops s1 = Some (ids1, s')" and i: "ids = fId win # ids1"
        by (auto split: option.splits)
      from CreateWindow_id[OF cw[unfolded Some]] Cons.IH[OF r] i show ?thesis by fastforce
    qed
  next
    case (Destroy win)
    with Cons.prems obtain s1 where u: "Unregister win s = Some s1" and r: "run e b ops s1 = Some (ids, s')"
      by (auto split: option.splits)
    from Cons.IH[OF r] Unregister_fIdCnt[OF u] show ?thesis by auto
  qed
qed

text \<open>
  C9. Whatever windows are created and destroyed, in whatever order, the ids given to the
  windows created are strictly increasing, so no id is given twice, they are above the
  counter's starting value, and a window created afterwards gets an id above every id
  given before: destroying windows never frees an id.
\<close>

theorem window_ids_strictly_increasing:
  assumes "run e b ops s = Some (ids, s')"
  shows "sorted_wrt (<) ids \<and> distinct ids \<and> (\<forall>i \<in> set ids. fIdCnt s < i) \<and>
         (\<forall>bm win s''. CreateWindow e b bm s' = (Some win, s'') \<longrightarrow> (\<forall>i \<in> set ids. i < fId win))"
proof -
  from run_ids[OF assms] have 1: "sorted_wrt (<) ids" and 2: "\<forall>i \<in> set ids. i \<le> fIdCnt s'"
    and 3: "\<forall>i \<in> set ids. fIdCnt s < i"
    by auto
  from 1 have "distinct ids" by (simp add: strict_sorted_iff)
  with 1 2 3 show ?thesis by (auto dest!: CreateWindow_id)
qed

lemma run_three:
  "run plain_env linux_build
     [Create False, Create True,
      Destroy (TWebWindow\<lparr>fId := 1, fWSHandler := Some ''win1''\<rparr>),
      Create False] TWebWindowsManager =
   Some ([1, 2, 3],
         TWebWindowsManager\<lparr>fServer := Some (THttpServer ''basic_sniffer''), fIdCnt := 3,
            registered := [(''/web7gui'', ''win2''), (''/web7gui'', ''win3'')]\<rparr>)"
  by (simp add: CreateWindow_def CreateHttpServer_def Unregister_def CreateWSHandler_def
      plain_env_def linux_build_def TWebWindow_def TWebWindowsManager_def to_string_nat.simps Let_def)

lemma create_fourth:
  "CreateWindow plain_env linux_build False
     (TWebWindowsManager\<lparr>fServer := Some (THttpServer ''basic_sniffer''), fIdCnt := 3,
            registered := [(''/web7gui'', ''win2''), (''/web7gui'', ''win3'')]\<rparr>) =
   (Some (TWebWindow\<lparr>fId := 4, fWSHandler := Some ''win4''\<rparr>),
    TWebWindowsManager\<lparr>fServer := Some (THttpServer ''basic_sniffer''), fIdCnt := 4,
            registered := [(''/web7gui'', ''win2''), (''/web7gui'', ''win3''), (''/web7gui'', ''win4'')]\<rparr>)"
  by (simp add: CreateWindow_def CreateHttpServer_def CreateWSHandler_def
      plain_env_def linux_build_def TWebWindow_def TWebWindowsManager_def to_string_nat.simps Let_def)

theorem window_ids_witness:
  "run plain_env linux_build
     [Create False, Create True,
      Destroy (TWebWindow\<lparr>fId := 1, fWSHandler := Some ''win1''\<rparr>),
      Create False] TWebWindowsManager =
   Some ([1, 2, 3],
         TWebWindowsManager\<lparr>fServer := Some (THttpServer ''basic_sniffer''), fIdCnt := 3,
            registered := [(''/web7gui'', ''win2''), (''/web7gui'', ''win3'')]\<rparr>) \<and>
   sorted_wrt (<) [1, 2, 3 :: nat] \<and> distinct [1, 2, 3 :: nat] \<and>
   fst (CreateWindow plain_env linux_build False
     (TWebWindowsManager\<lparr>fServer := Some (THttpServer ''basic_sniffer''), fIdCnt := 3,
            registered := [(''/web7gui'', ''win2''), (''/web7gui'', ''win3'')]\<rparr>)) =
     Some (TWebWindow\<lparr>fId := 4, fWSHandler := Some ''win4''\<rparr>) \<and>
   list_all (\<lambda>i. i < fId (TWebWindow\<lparr>fId := 4, fWSHandler := Some ''win4''\<rparr>)) [1, 2, 3]"
  using window_ids_strictly_increasing [OF run_three] run_three create_fourth
  by simp

subsection \<open>Properties of GetUrl\<close>

text \<open>
  C10. For a window with a handler GetUrl returns, and the URL it returns is empty in
  two cases only: the server has not been constructed, or the URL is asked for remote use
  and CreateHttpServer with the network fails. In every other case the URL is not empty.
\<close>

theorem GetUrl_empty_iff:
  assumes "fWSHandler win = Some name"
  shows "\<exists>url s'. GetUrl e win remote s = Some (url, s') \<and>
           (url = [] \<longleftrightarrow> fServer s = None \<or> (remote \<and> isl (fst (CreateHttpServer e True s))))"
  using assms
  by (auto simp: GetUrl_def Let_def split: prod.splits sum.splits)

theorem GetUrl_empty_iff_witness:
  "GetUrl plain_env (TWebWindow\<lparr>fId := 12, fWSHandler := Some ''w12''\<rparr>) False TWebWindowsManager
     = Some ([], TWebWindowsManager) \<and>
   GetUrl (plain_env\<lparr>gEnv := \<lparr>ints = [''WebGui.HttpPort'' \<mapsto> - 1], strs = Map.empty, dbls = Map.empty\<rparr>\<rparr>)
     (TWebWindow\<lparr>fId := 12, fWSHandler := Some ''w12''\<rparr>) True
     (TWebWindowsManager\<lparr>fServer := Some (THttpServer ''basic_sniffer'')\<rparr>) =
     Some ([], TWebWindowsManager\<lparr>fServer := Some (THttpServer ''basic_sniffer'')\<rparr>) \<and>
   GetUrl plain_env (TWebWindow\<lparr>fId := 12, fWSHandler := Some ''w12''\<rparr>) False
     (TWebWindowsManager\<lparr>fServer := Some (THttpServer ''basic_sniffer'')\<rparr>) =
     Some (''/web7gui/w12/'', TWebWindowsManager\<lparr>fServer := Some (THttpServer ''basic_sniffer'')\<rparr>)"
  using
    GetUrl_empty_iff [of "TWebWindow\<lparr>fId := 12, fWSHandler := Some ''w12''\<rparr>" "''w12''"
      plain_env False TWebWindowsManager]
    GetUrl_empty_iff [of "TWebWindow\<lparr>fId := 12, fWSHandler := Some ''w12''\<rparr>" "''w12''"
      "plain_env\<lparr>gEnv := \<lparr>ints = [''WebGui.HttpPort'' \<mapsto> - 1], strs = Map.empty, dbls = Map.empty\<rparr>\<rparr>"
      True "TWebWindowsManager\<lparr>fServer := Some (THttpServer ''basic_sniffer'')\<rparr>"]
    GetUrl_empty_iff [of "TWebWindow\<lparr>fId := 12, fWSHandler := Some ''w12''\<rparr>" "''w12''"
      plain_env False "TWebWindowsManager\<lparr>fServer := Some (THttpServer ''basic_sniffer'')\<rparr>"]
  by (simp add: GetUrl_def CreateHttpServer_def GetValue_int_def plain_env_def TWebWindow_def
      TWebWindowsManager_def)

subsection \<open>Properties of Show\<close>

text \<open>
  The URL that lines 288-293 build from the window and the key.
\<close>

lemma Show_addr_local_url:
  assumes "fServer s \<noteq> None" and "fWSHandler win = Some name"
  shows "Show_addr e win key s =
           Some ((''/web7gui/'' @ name @ ''/'' @ (if fBatchMode win then ''?batch_mode'' else [])) @
                 (if CHR ''?'' \<in> set (''/web7gui/'' @ name @ ''/'' @ (if fBatchMode win then ''?batch_mode'' else []))
                  then ''&key='' else ''?key='') @ key, s)"
  using assms by (simp add: Show_addr_def GetUrl_def key_url_def)

text \<open>
  The key loop changes the count of draws only; looking a symbol up leaves the launched
  clients as they are; and each way of starting a client launches at most one, the
  embedded engines with the local URL that they are given.
\<close>

lemma gen_key_state:
  "\<exists>d. snd (snd (gen_key e win ntry s)) = s\<lparr>draws := d\<rparr>"
proof (induction e win ntry s rule: gen_key.induct)
  case (1 e win ntry s)
  note IH = "1.IH"[OF refl refl]
  show ?case
  proof (cases "ntry - 1 > 0 \<and> HasKey win (to_string_nat (Integer e (draws s)))")
    case True
    with IH obtain d where "snd (snd (gen_key e win (ntry - 1) (s\<lparr>draws := draws s + 1\<rparr>))) =
        s\<lparr>draws := draws s + 1\<rparr>\<lparr>draws := d\<rparr>" by blast
    with True show ?thesis by (auto simp: gen_key.simps[of e win ntry s] Let_def)
  next
    case False
    then show ?thesis by (auto simp: gen_key.simps[of e win ntry s] Let_def)
  qed
qed

lemma find_symbol_launched:
  "launched (snd (find_symbol e symbol lib s)) = launched s"
  by (simp add: find_symbol_def Let_def)

lemma Show_cef_launched:
  "Show_cef e b win key addr n c s = (w, s') \<Longrightarrow>
     (w = None \<longrightarrow> launched s' = launched s) \<and>
     (w \<noteq> None \<longrightarrow> (\<exists>rootsys cef_path. launched s' = launched s @
         [CefStart addr (fBatchMode win) rootsys cef_path (fWidth win) (fHeight win)]))"
  using find_symbol_launched[of e "''webgui_start_browser_in_cef3''" "''libROOTCefDisplay''" s]
  by (auto simp: Show_cef_def split: if_splits option.splits prod.splits bool.splits)

lemma Show_qt5_launched:
  "Show_qt5 e b win key addr n q s = (w, s') \<Longrightarrow>
     (w = None \<longrightarrow> launched s' = launched s) \<and>
     (w \<noteq> None \<longrightarrow> launched s' = launched s @
         [Qt5Start addr (fBatchMode win) (fWidth win) (fHeight win)])"
  using find_symbol_launched[of e "''webgui_start_browser_in_qt5''" "''libROOTQt5WebDisplay''" s]
  by (auto simp: Show_qt5_def split: if_splits option.splits prod.splits bool.splits)

lemma Show_launch_launched:
  "Show_launch e b win key wh prog exec0 addr s = (r, s', win1) \<Longrightarrow>
     launched s' = launched s \<or> (\<exists>p argv. launched s' = launched s @ [Spawn p argv]) \<or>
     (\<exists>cmd. launched s' = launched s @ [Exec cmd])"
  by (auto simp: Show_launch_def Let_def split: if_splits)

lemma Show_modes_launched:
  assumes "Show_modes e b win key addr wh n q c ch ff s = (r, s', win1)"
  shows "launched s' = launched s \<or>
         (\<exists>rootsys cef_path. launched s' = launched s @
             [CefStart addr (fBatchMode win) rootsys cef_path (fWidth win) (fHeight win)]) \<or>
         launched s' = launched s @ [Qt5Start addr (fBatchMode win) (fWidth win) (fHeight win)] \<or>
         (\<exists>p argv. launched s' = launched s @ [Spawn p argv]) \<or>
         (\<exists>cmd. launched s' = launched s @ [Exec cmd])"
proof -
  obtain cw s3 where c: "Show_cef e b win key addr n c s = (cw, s3)"
    by (cases "Show_cef e b win key addr n c s")
  obtain qw s4 where q: "Show_qt5 e b win key addr n q s3 = (qw, s4)"
    by (cases "Show_qt5 e b win key addr n q s3")
  obtain hr s5 where h: "CreateHttpServer e True s4 = (hr, s5)"
    by (cases "CreateHttpServer e True s4")
  obtain lr ls lw where l: "Show_launch e b win key wh
      (fst (Show_exec e b win wh n q c ch ff)) (snd (Show_exec e b win wh n q c ch ff))
      (fAddr s5 @ addr) s5 = (lr, ls, lw)"
    by (metis prod_cases3)
  note cl = Show_cef_launched[OF c] and ql = Show_qt5_launched[OF q]
    and hl = CreateHttpServer_launched[OF h] and ll = Show_launch_launched[OF l]
  show ?thesis
  proof (cases "fBatchMode win \<and> \<not> c \<and> \<not> ch \<and> \<not> ff")
    case True
    with assms have "s' = s" by (simp add: Show_modes_def)
    then show ?thesis by simp
  next
    case nA: False
    show ?thesis
    proof (cases "fBatchMode win \<and> c \<and>
        (case Getenv e ''DISPLAY'' of None \<Rightarrow> True | Some displ \<Rightarrow> displ = [])")
      case True
      with assms nA have "s' = s" by (simp add: Show_modes_def)
      then show ?thesis by simp
    next
      case nB: False
      have unf: "Show_modes e b win key addr wh n q c ch ff s =
        (case cw of
           Some w \<Rightarrow> (Inr (), s3, w)
         | None \<Rightarrow>
             (case qw of
                Some w \<Rightarrow> (Inr (), s4, w)
              | None \<Rightarrow>
                  (case hr of
                     Inl err \<Rightarrow> (Inl NoRealHttp, s5, win)
                   | Inr u \<Rightarrow> (lr, ls, lw))))"
        using nA nB c q h l
        by (auto simp: Show_modes_def Let_def split: option.splits sum.splits)
      show ?thesis
      proof (cases cw)
        case (Some w)
        with assms unf have "s' = s3" by simp
        with cl Some show ?thesis by auto
      next
        case cN: None
        show ?thesis
        proof (cases qw)
          case (Some w)
          with assms unf cN have "s' = s4" by simp
          with cl ql cN Some show ?thesis by auto
        next
          case qN: None
          show ?thesis
          proof (cases hr)
            case (Inl err)
            with assms unf cN qN have "s' = s5" by simp
            with cl ql hl cN qN show ?thesis by auto
          next
            case (Inr u)
            with assms unf cN qN have "s' = ls" by simp
            with cl ql hl ll cN qN show ?thesis by auto
          qed
        qed
      qed
    qed
  qed
qed

lemma Show_display_launched:
  assumes "Show_display e b win key addr where_arg s = (r, s', win1)"
  shows "launched s' = launched s \<or>
         (\<exists>rootsys cef_path. launched s' = launched s @
             [CefStart addr (fBatchMode win) rootsys cef_path (fWidth win) (fHeight win)]) \<or>
         launched s' = launched s @ [Qt5Start addr (fBatchMode win) (fWidth win) (fHeight win)] \<or>
         (\<exists>p argv. launched s' = launched s @ [Spawn p argv]) \<or>
         (\<exists>cmd. launched s' = launched s @ [Exec cmd])"
  using assms unfolding Show_display_def Let_def by (rule Show_modes_launched)

text \<open>
  C7. With the server constructed and a key generated, Show displays the window with a
  local URL that is the base path \<open>/web7gui/\<close>, the name of the window's handler, a
  slash, then \<open>?batch_mode\<close> exactly when the window is in batch mode, and then the key
  that this call has generated, joined by \<open>&key=\<close> when what precedes contains a question
  mark and by \<open>?key=\<close> when it does not. An embedded engine that the call starts (Chromium
  or Qt5) is started with exactly this URL.
\<close>

theorem Show_local_url:
  assumes "fServer s \<noteq> None" and "fWSHandler win = Some name"
  shows "let key = fst (gen_key e win 1000 s);
             s1 = snd (snd (gen_key e win 1000 s));
             path = ''/web7gui/'' @ name @ ''/'' @ (if fBatchMode win then ''?batch_mode'' else []);
             url = path @ (if CHR ''?'' \<in> set path then ''&key='' else ''?key='') @ key
         in (fst (snd (gen_key e win 1000 s)) \<noteq> 0 \<longrightarrow>
               Show e b win where_arg s = Some (Show_display e b win key url where_arg s1)) \<and>
            (\<forall>r s' win1 a bm rootsys cef_path w h.
               Show e b win where_arg s = Some (r, s', win1) \<and>
               launched s' = launched s @ [CefStart a bm rootsys cef_path w h] \<longrightarrow> a = url) \<and>
            (\<forall>r s' win1 a bm w h.
               Show e b win where_arg s = Some (r, s', win1) \<and>
               launched s' = launched s @ [Qt5Start a bm w h] \<longrightarrow> a = url)"
proof -
  define key where "key = fst (gen_key e win 1000 s)"
  define s1 where "s1 = snd (snd (gen_key e win 1000 s))"
  define path where "path = ''/web7gui/'' @ name @ ''/'' @ (if fBatchMode win then ''?batch_mode'' else [])"
  define url where "url = path @ (if CHR ''?'' \<in> set path then ''&key='' else ''?key='') @ key"
  obtain d where d: "s1 = s\<lparr>draws := d\<rparr>"
    using gen_key_state[of e win 1000 s] unfolding s1_def by blast
  then have fs: "fServer s1 \<noteq> None" and ls: "launched s1 = launched s"
    using assms(1) by simp_all
  have addr: "Show_addr e win key s1 = Some (url, s1)"
    unfolding url_def path_def by (rule Show_addr_local_url[OF fs assms(2)])
  have sh: "Show e b win where_arg s =
      (if fst (snd (gen_key e win 1000 s)) = 0 then Some (Inl NoUniqueKey, s1, win)
       else Some (Show_display e b win key url where_arg s1))"
    using assms(1) addr by (auto simp: Show_def Let_def key_def[symmetric] s1_def[symmetric])
  have a: "fst (snd (gen_key e win 1000 s)) \<noteq> 0 \<longrightarrow>
               Show e b win where_arg s = Some (Show_display e b win key url where_arg s1)"
    using sh by simp
  have l: "launched s' = launched s \<or>
         (\<exists>rootsys cef_path. launched s' = launched s @
             [CefStart url (fBatchMode win) rootsys cef_path (fWidth win) (fHeight win)]) \<or>
         launched s' = launched s @ [Qt5Start url (fBatchMode win) (fWidth win) (fHeight win)] \<or>
         (\<exists>p argv. launched s' = launched s @ [Spawn p argv]) \<or>
         (\<exists>cmd. launched s' = launched s @ [Exec cmd])"
    if "Show e b win where_arg s = Some (r, s', win1)" for r s' win1
  proof (cases "fst (snd (gen_key e win 1000 s)) = 0")
    case True
    with that sh have "s' = s1" by simp
    with ls show ?thesis by simp
  next
    case False
    with that sh have "Show_display e b win key url where_arg s1 = (r, s', win1)" by simp
    from Show_display_launched[OF this] ls show ?thesis by simp
  qed
  have b: "\<forall>r s' win1 a bm rootsys cef_path w h.
               Show e b win where_arg s = Some (r, s', win1) \<and>
               launched s' = launched s @ [CefStart a bm rootsys cef_path w h] \<longrightarrow> a = url"
    using l by fastforce
  have c: "\<forall>r s' win1 a bm w h.
               Show e b win where_arg s = Some (r, s', win1) \<and>
               launched s' = launched s @ [Qt5Start a bm w h] \<longrightarrow> a = url"
    using l by fastforce
  show ?thesis
    using a b c unfolding Let_def key_def s1_def url_def path_def by blast
qed

text \<open>
  Three runs on the window \<open>w12\<close> with the key 42: the embedded Chromium in batch mode
  and not in batch mode, and the Qt5 engine.
\<close>

lemma cef_key:
  "gen_key cef_env (TWebWindow\<lparr>fId := 12, fBatchMode := bm, fWSHandler := Some ''w12''\<rparr>) 1000
     (TWebWindowsManager\<lparr>fServer := Some (THttpServer ''basic_sniffer'')\<rparr>) =
   (''42'', 999, TWebWindowsManager\<lparr>fServer := Some (THttpServer ''basic_sniffer''), draws := 1\<rparr>)"
  by (simp add: gen_key.simps HasKey_def cef_env_def plain_env_def TWebWindow_def TWebWindowsManager_def
      to_string_nat.simps Let_def)

lemma cef_display:
  "Show_display cef_env cef_build (TWebWindow\<lparr>fId := 12, fBatchMode := bm, fWSHandler := Some ''w12''\<rparr>)
     ''42'' url ''cef'' s =
   (Inr (),
    s\<lparr>launched := launched s @ [CefStart url bm ''/opt/root'' ''/opt/cef'' 0 0]\<rparr>,
    TWebWindow\<lparr>fId := 12, fBatchMode := bm, fWSHandler := Some ''w12'', fKeys := [''42'' \<mapsto> ''cef'']\<rparr>)"
  by (simp add: Show_display_def Show_modes_def Show_cef_def find_symbol_def AddKey_def
      cef_env_def cef_build_def plain_env_def linux_build_def TWebWindow_def Let_def)

lemma qt5_display:
  "Show_display cef_env qt5_build (TWebWindow\<lparr>fId := 12, fBatchMode := False, fWSHandler := Some ''w12''\<rparr>)
     ''42'' url ''qt5'' s =
   (Inr (),
    s\<lparr>launched := launched s @ [Qt5Start url False 0 0]\<rparr>,
    TWebWindow\<lparr>fId := 12, fBatchMode := False, fWSHandler := Some ''w12'', fKeys := [''42'' \<mapsto> ''qt5'']\<rparr>)"
  by (simp add: Show_display_def Show_modes_def Show_cef_def Show_qt5_def find_symbol_def AddKey_def
      cef_env_def qt5_build_def plain_env_def linux_build_def TWebWindow_def Let_def)

theorem Show_local_url_witness:
  "Show cef_env cef_build (TWebWindow\<lparr>fId := 12, fBatchMode := True, fWSHandler := Some ''w12''\<rparr>) ''cef''
     (TWebWindowsManager\<lparr>fServer := Some (THttpServer ''basic_sniffer'')\<rparr>) =
   Some (Inr (),
         TWebWindowsManager\<lparr>fServer := Some (THttpServer ''basic_sniffer''), draws := 1,
           launched := [CefStart ''/web7gui/w12/?batch_mode&key=42'' True ''/opt/root'' ''/opt/cef'' 0 0]\<rparr>,
         TWebWindow\<lparr>fId := 12, fBatchMode := True, fWSHandler := Some ''w12'', fKeys := [''42'' \<mapsto> ''cef'']\<rparr>) \<and>
   Show cef_env cef_build (TWebWindow\<lparr>fId := 12, fBatchMode := False, fWSHandler := Some ''w12''\<rparr>) ''cef''
     (TWebWindowsManager\<lparr>fServer := Some (THttpServer ''basic_sniffer'')\<rparr>) =
   Some (Inr (),
         TWebWindowsManager\<lparr>fServer := Some (THttpServer ''basic_sniffer''), draws := 1,
           launched := [CefStart ''/web7gui/w12/?key=42'' False ''/opt/root'' ''/opt/cef'' 0 0]\<rparr>,
         TWebWindow\<lparr>fId := 12, fBatchMode := False, fWSHandler := Some ''w12'', fKeys := [''42'' \<mapsto> ''cef'']\<rparr>) \<and>
   Show cef_env qt5_build (TWebWindow\<lparr>fId := 12, fBatchMode := False, fWSHandler := Some ''w12''\<rparr>) ''qt5''
     (TWebWindowsManager\<lparr>fServer := Some (THttpServer ''basic_sniffer'')\<rparr>) =
   Some (Inr (),
         TWebWindowsManager\<lparr>fServer := Some (THttpServer ''basic_sniffer''), draws := 1,
           launched := [Qt5Start ''/web7gui/w12/?key=42'' False 0 0]\<rparr>,
         TWebWindow\<lparr>fId := 12, fBatchMode := False, fWSHandler := Some ''w12'', fKeys := [''42'' \<mapsto> ''qt5'']\<rparr>)"
proof -
  let ?s = "TWebWindowsManager\<lparr>fServer := Some (THttpServer ''basic_sniffer'')\<rparr>"
  let ?on = "TWebWindow\<lparr>fId := 12, fBatchMode := True, fWSHandler := Some ''w12''\<rparr>"
  let ?off = "TWebWindow\<lparr>fId := 12, fBatchMode := False, fWSHandler := Some ''w12''\<rparr>"
  note on = Show_local_url [of ?s ?on "''w12''" cef_env cef_build "''cef''", unfolded Let_def]
  note off = Show_local_url [of ?s ?off "''w12''" cef_env cef_build "''cef''", unfolded Let_def]
  note qt = Show_local_url [of ?s ?off "''w12''" cef_env qt5_build "''qt5''", unfolded Let_def]
  have 1: "Show cef_env cef_build ?on ''cef'' ?s =
      Some (Inr (),
         TWebWindowsManager\<lparr>fServer := Some (THttpServer ''basic_sniffer''), draws := 1,
           launched := [CefStart ''/web7gui/w12/?batch_mode&key=42'' True ''/opt/root'' ''/opt/cef'' 0 0]\<rparr>,
         TWebWindow\<lparr>fId := 12, fBatchMode := True, fWSHandler := Some ''w12'', fKeys := [''42'' \<mapsto> ''cef'']\<rparr>)"
    using on [THEN conjunct1]
    apply (simp add: cef_key cef_display)
    apply (simp add: TWebWindowsManager_def)
    done
  have 2: "Show cef_env cef_build ?off ''cef'' ?s =
      Some (Inr (),
         TWebWindowsManager\<lparr>fServer := Some (THttpServer ''basic_sniffer''), draws := 1,
           launched := [CefStart ''/web7gui/w12/?key=42'' False ''/opt/root'' ''/opt/cef'' 0 0]\<rparr>,
         TWebWindow\<lparr>fId := 12, fBatchMode := False, fWSHandler := Some ''w12'', fKeys := [''42'' \<mapsto> ''cef'']\<rparr>)"
    using off [THEN conjunct1]
    apply (simp add: cef_key cef_display)
    apply (simp add: TWebWindowsManager_def)
    done
  have 3: "Show cef_env qt5_build ?off ''qt5'' ?s =
      Some (Inr (),
         TWebWindowsManager\<lparr>fServer := Some (THttpServer ''basic_sniffer''), draws := 1,
           launched := [Qt5Start ''/web7gui/w12/?key=42'' False 0 0]\<rparr>,
         TWebWindow\<lparr>fId := 12, fBatchMode := False, fWSHandler := Some ''w12'', fKeys := [''42'' \<mapsto> ''qt5'']\<rparr>)"
    using qt [THEN conjunct1]
    apply (simp add: cef_key qt5_display)
    apply (simp add: TWebWindowsManager_def)
    done
  have 4: "''/web7gui/w12/?batch_mode&key=42'' =
      (''/web7gui/'' @ ''w12'' @ ''/'' @ (if fBatchMode ?on then ''?batch_mode'' else [])) @
      (if CHR ''?'' \<in> set (''/web7gui/'' @ ''w12'' @ ''/'' @ (if fBatchMode ?on then ''?batch_mode'' else []))
       then ''&key='' else ''?key='') @ fst (gen_key cef_env ?on 1000 ?s)"
    using on [THEN conjunct2, THEN conjunct1, rule_format,
        of "Inr ()" _ _ "''/web7gui/w12/?batch_mode&key=42''" True "''/opt/root''" "''/opt/cef''" 0 0] 1
    by (simp add: TWebWindowsManager_def)
  have 5: "''/web7gui/w12/?key=42'' =
      (''/web7gui/'' @ ''w12'' @ ''/'' @ (if fBatchMode ?off then ''?batch_mode'' else [])) @
      (if CHR ''?'' \<in> set (''/web7gui/'' @ ''w12'' @ ''/'' @ (if fBatchMode ?off then ''?batch_mode'' else []))
       then ''&key='' else ''?key='') @ fst (gen_key cef_env ?off 1000 ?s)"
    using qt [THEN conjunct2, THEN conjunct2, rule_format,
        of "Inr ()" _ _ "''/web7gui/w12/?key=42''" False 0 0] 3
    by (simp add: TWebWindowsManager_def)
  from 1 2 3 4 5 show ?thesis by simp
qed

text \<open>
  The key loop: a result with \<open>ntry\<close> above 0 is a key that the window does not have;
  the key is a string of decimal digits; and, entered with \<open>ntry\<close> at least 1, the loop
  ends with \<open>ntry = 0\<close> exactly when each of the first \<open>ntry - 1\<close> draws is a key of the
  window. The last draw is never looked up.
\<close>

lemma gen_key_fresh:
  "gen_key e win ntry s = (key, n, s') \<Longrightarrow> 0 < n \<Longrightarrow> \<not> HasKey win key"
proof (induction e win ntry s rule: gen_key.induct)
  case (1 e win ntry s)
  note IH = "1.IH"[OF refl refl]
  show ?case using "1.prems" IH
    by (auto simp: gen_key.simps[of e win ntry s] Let_def split: if_splits)
qed

lemma gen_key_digits:
  "gen_key e win ntry s = (key, n, s') \<Longrightarrow> list_all isdigit key"
proof (induction e win ntry s rule: gen_key.induct)
  case (1 e win ntry s)
  note IH = "1.IH"[OF refl refl]
  show ?case using "1.prems" IH
    by (auto simp: gen_key.simps[of e win ntry s] Let_def to_string_nat_digits split: if_splits)
qed

lemma gen_key_nonneg:
  "1 \<le> ntry \<Longrightarrow> 0 \<le> fst (snd (gen_key e win ntry s))"
proof (induction e win ntry s rule: gen_key.induct)
  case (1 e win ntry s)
  note IH = "1.IH"[OF refl refl]
  show ?case using "1.prems" IH
    by (auto simp: gen_key.simps[of e win ntry s] Let_def split: if_splits)
qed

lemma gen_key_zero_iff:
  "1 \<le> ntry \<Longrightarrow>
     fst (snd (gen_key e win ntry s)) = 0 \<longleftrightarrow>
       (\<forall>i. int i < ntry - 1 \<longrightarrow> HasKey win (to_string_nat (Integer e (draws s + i))))"
proof (induction e win ntry s rule: gen_key.induct)
  case (1 e win ntry s)
  note IH = "1.IH"[OF refl refl]
  show ?case
  proof (cases "ntry - 1 > 0 \<and> HasKey win (to_string_nat (Integer e (draws s))) ")
    case True
    then have step: "gen_key e win ntry s = gen_key e win (ntry - 1) (s\<lparr>draws := draws s + 1\<rparr>)"
      by (simp add: gen_key.simps[of e win ntry s] Let_def)
    from True have "1 \<le> ntry - 1" by simp
    from IH[OF True this]
    have ih: "fst (snd (gen_key e win (ntry - 1) (s\<lparr>draws := draws s + 1\<rparr>))) = 0 \<longleftrightarrow>
       (\<forall>i. int i < ntry - 1 - 1 \<longrightarrow> HasKey win (to_string_nat (Integer e (draws s + 1 + i))))"
      by simp
    have "(\<forall>i. int i < ntry - 1 \<longrightarrow> HasKey win (to_string_nat (Integer e (draws s + i)))) \<longleftrightarrow>
          (\<forall>i. int i < ntry - 1 - 1 \<longrightarrow> HasKey win (to_string_nat (Integer e (draws s + 1 + i))))"
      (is "?L \<longleftrightarrow> ?R")
    proof
      assume l: ?L
      show ?R
      proof (intro allI impI)
        fix i assume "int i < ntry - 1 - 1"
        then have "int (Suc i) < ntry - 1" by simp
        with l have "HasKey win (to_string_nat (Integer e (draws s + Suc i)))" by blast
        then show "HasKey win (to_string_nat (Integer e (draws s + 1 + i)))" by simp
      qed
    next
      assume r: ?R
      show ?L
      proof (intro allI impI)
        fix i assume a: "int i < ntry - 1"
        show "HasKey win (to_string_nat (Integer e (draws s + i)))"
        proof (cases i)
          case 0
          with True show ?thesis by simp
        next
          case (Suc j)
          with a have "int j < ntry - 1 - 1" by simp
          with r have "HasKey win (to_string_nat (Integer e (draws s + 1 + j)))" by blast
          with Suc show ?thesis by simp
        qed
      qed
    qed
    with ih step show ?thesis by simp
  next
    case False
    then have step: "gen_key e win ntry s =
        (to_string_nat (Integer e (draws s)), ntry - 1, s\<lparr>draws := draws s + 1\<rparr>)"
      by (auto simp: gen_key.simps[of e win ntry s] Let_def)
    show ?thesis
    proof (cases "ntry - 1 > 0")
      case True
      with False have "\<not> HasKey win (to_string_nat (Integer e (draws s + 0)))" by simp
      with True have "\<not> (\<forall>i. int i < ntry - 1 \<longrightarrow> HasKey win (to_string_nat (Integer e (draws s + i))))"
        by (auto intro!: exI[of _ 0])
      with step True show ?thesis by simp
    next
      case False
      with "1.prems" have "ntry = 1" by simp
      with step show ?thesis by simp
    qed
  qed
qed

lemma gen_key_draws:
  "1 \<le> ntry \<Longrightarrow> fst (snd (gen_key e win ntry s)) = 0 \<Longrightarrow>
     fst (gen_key e win ntry s) = to_string_nat (Integer e (draws s + nat ntry - 1)) \<and>
     snd (snd (gen_key e win ntry s)) = s\<lparr>draws := draws s + nat ntry\<rparr>"
proof (induction e win ntry s rule: gen_key.induct)
  case (1 e win ntry s)
  note IH = "1.IH"[OF refl refl]
  show ?case
  proof (cases "ntry - 1 > 0 \<and> HasKey win (to_string_nat (Integer e (draws s))) ")
    case True
    then have step: "gen_key e win ntry s = gen_key e win (ntry - 1) (s\<lparr>draws := draws s + 1\<rparr>)"
      by (simp add: gen_key.simps[of e win ntry s] Let_def)
    from True have n: "1 \<le> ntry - 1" by simp
    from True have eq: "Suc (draws s + nat (ntry - 1)) = draws s + nat ntry" by linarith
    from n have eq2: "draws s + nat (ntry - 1) = draws s + nat ntry - 1" by linarith
    from True have eq3: "Suc (draws s + nat ntry - Suc 0) = draws s + nat ntry" by linarith
    from IH[OF True n] "1.prems"(2) step show ?thesis by (simp add: eq eq2 eq3)
  next
    case False
    then have step: "gen_key e win ntry s =
        (to_string_nat (Integer e (draws s)), ntry - 1, s\<lparr>draws := draws s + 1\<rparr>)"
      by (auto simp: gen_key.simps[of e win ntry s] Let_def)
    with "1.prems" have "ntry = 1" by simp
    with step show ?thesis by simp
  qed
qed

text \<open>
  The window that Show returns: the window it was given when Show fails, and that window
  with one key added when Show succeeds.
\<close>

lemma Show_cef_window:
  "Show_cef e b win key addr n c s = (Some win1, s') \<Longrightarrow> win1 = AddKey key ''cef'' win"
  by (auto simp: Show_cef_def split: if_splits option.splits prod.splits bool.splits)

lemma Show_qt5_window:
  "Show_qt5 e b win key addr n q s = (Some win1, s') \<Longrightarrow> win1 = AddKey key ''qt5'' win"
  by (auto simp: Show_qt5_def split: if_splits option.splits prod.splits bool.splits)

lemma Show_launch_window:
  "Show_launch e b win key wh prog exec0 addr s = (r, s', win1) \<Longrightarrow>
     (isl r \<longrightarrow> win1 = win) \<and> (\<not> isl r \<longrightarrow> (\<exists>tag. win1 = AddKey key tag win)) \<and>
     r \<noteq> Inl NoUniqueKey \<and> r \<noteq> Inl NoServer"
  by (auto simp: Show_launch_def Let_def split: if_splits)

lemma Show_modes_window:
  assumes "Show_modes e b win key addr wh n q c ch ff s = (r, s', win1)"
  shows "(isl r \<longrightarrow> win1 = win) \<and> (\<not> isl r \<longrightarrow> (\<exists>tag. win1 = AddKey key tag win)) \<and>
         r \<noteq> Inl NoUniqueKey \<and> r \<noteq> Inl NoServer"
proof -
  obtain cw s3 where c: "Show_cef e b win key addr n c s = (cw, s3)"
    by (cases "Show_cef e b win key addr n c s")
  obtain qw s4 where q: "Show_qt5 e b win key addr n q s3 = (qw, s4)"
    by (cases "Show_qt5 e b win key addr n q s3")
  obtain hr s5 where h: "CreateHttpServer e True s4 = (hr, s5)"
    by (cases "CreateHttpServer e True s4")
  obtain lr ls lw where l: "Show_launch e b win key wh
      (fst (Show_exec e b win wh n q c ch ff)) (snd (Show_exec e b win wh n q c ch ff))
      (fAddr s5 @ addr) s5 = (lr, ls, lw)"
    by (metis prod_cases3)
  show ?thesis
  proof (cases "fBatchMode win \<and> \<not> c \<and> \<not> ch \<and> \<not> ff")
    case True
    with assms have "r = Inl BatchNeedsHeadless \<and> win1 = win"
      by (simp add: Show_modes_def)
    then show ?thesis by simp
  next
    case nA: False
    show ?thesis
    proof (cases "fBatchMode win \<and> c \<and>
        (case Getenv e ''DISPLAY'' of None \<Rightarrow> True | Some displ \<Rightarrow> displ = [])")
      case True
      with assms nA have "r = Inl CefNeedsDisplay \<and> win1 = win"
        by (simp add: Show_modes_def)
      then show ?thesis by simp
    next
      case nB: False
      have unf: "Show_modes e b win key addr wh n q c ch ff s =
        (case cw of
           Some w \<Rightarrow> (Inr (), s3, w)
         | None \<Rightarrow>
             (case qw of
                Some w \<Rightarrow> (Inr (), s4, w)
              | None \<Rightarrow>
                  (case hr of
                     Inl err \<Rightarrow> (Inl NoRealHttp, s5, win)
                   | Inr u \<Rightarrow> (lr, ls, lw))))"
        using nA nB c q h l
        by (auto simp: Show_modes_def Let_def split: option.splits sum.splits)
      show ?thesis
      proof (cases cw)
        case (Some w)
        with assms unf have "r = Inr () \<and> win1 = w" by simp
        with Show_cef_window[OF c[unfolded Some]] show ?thesis by auto
      next
        case cN: None
        show ?thesis
        proof (cases qw)
          case (Some w)
          with assms unf cN have "r = Inr () \<and> win1 = w" by simp
          with Show_qt5_window[OF q[unfolded Some]] show ?thesis by auto
        next
          case qN: None
          show ?thesis
          proof (cases hr)
            case (Inl err)
            with assms unf cN qN have "r = Inl NoRealHttp \<and> win1 = win" by simp
            then show ?thesis by simp
          next
            case (Inr u)
            with assms unf cN qN have "r = lr \<and> win1 = lw" by simp
            with Show_launch_window[OF l] show ?thesis by simp
          qed
        qed
      qed
    qed
  qed
qed

lemma Show_display_window:
  assumes "Show_display e b win key addr wh s = (r, s', win1)"
  shows "(isl r \<longrightarrow> win1 = win) \<and> (\<not> isl r \<longrightarrow> (\<exists>tag. win1 = AddKey key tag win)) \<and>
         r \<noteq> Inl NoUniqueKey \<and> r \<noteq> Inl NoServer"
  using assms unfolding Show_display_def Let_def by (rule Show_modes_window)

lemma Show_window:
  assumes "Show e b win wh s = Some (r, s', win1)"
  shows "(isl r \<longrightarrow> win1 = win) \<and>
         (\<not> isl r \<longrightarrow> (\<exists>tag. win1 = AddKey (fst (gen_key e win 1000 s)) tag win) \<and>
                        0 < fst (snd (gen_key e win 1000 s)))"
proof -
  have nz: "0 \<le> fst (snd (gen_key e win 1000 s))"
    by (rule gen_key_nonneg) simp
  show ?thesis
  using assms nz
  by (auto simp: Show_def Let_def split: if_splits option.splits prod.splits
      dest: Show_display_window)
qed

text \<open>
  A successful Show records a key of decimal digits that the window did not have; and
  Show fails for want of a key exactly when the first 999 draws are keys of the window.
\<close>

lemma Show_key_fresh:
  assumes "Show e b win where_arg s = Some (Inr u, s', win1)"
  shows "\<exists>key tag. win1 = AddKey key tag win \<and> \<not> HasKey win key \<and> list_all isdigit key"
proof -
  obtain key n s1 where g: "gen_key e win 1000 s = (key, n, s1)" by (metis prod_cases3)
  from Show_window[OF assms] g obtain tag where "win1 = AddKey key tag win" and "0 < n" by auto
  with gen_key_fresh[OF g] gen_key_digits[OF g] show ?thesis by blast
qed

lemma Show_NoUniqueKey_iff:
  assumes "fServer s \<noteq> None"
  shows "(\<exists>s' win1. Show e b win wh s = Some (Inl NoUniqueKey, s', win1)) \<longleftrightarrow>
         (\<forall>i<999. HasKey win (to_string_nat (Integer e (draws s + i))))"
proof -
  have z: "fst (snd (gen_key e win 1000 s)) = 0 \<longleftrightarrow>
           (\<forall>i<999. HasKey win (to_string_nat (Integer e (draws s + i))))"
    using gen_key_zero_iff[of 1000 e win s] by simp
  have "(\<exists>s' win1. Show e b win wh s = Some (Inl NoUniqueKey, s', win1)) \<longleftrightarrow>
        fst (snd (gen_key e win 1000 s)) = 0"
    using assms
    by (auto simp: Show_def Let_def split: if_splits option.splits prod.splits
        dest: Show_display_window)
  with z show ?thesis by simp
qed

text \<open>
  A window that holds the key 5, and a generator that draws 5 for 999 times and then 7:
  the loop ends with the key 7 and \<open>ntry = 0\<close>.
\<close>

lemma collide_key:
  "gen_key (plain_env\<lparr>Integer := (\<lambda>n. if n < 999 then 5 else 7)\<rparr>)
     (TWebWindow\<lparr>fId := 1, fWSHandler := Some ''win1'', fKeys := [''5'' \<mapsto> ''browser'']\<rparr>)
     1000 (TWebWindowsManager\<lparr>fServer := Some (THttpServer ''basic_sniffer'')\<rparr>) =
   (''7'', 0, TWebWindowsManager\<lparr>fServer := Some (THttpServer ''basic_sniffer''), draws := 1000\<rparr>)"
proof -
  let ?e = "plain_env\<lparr>Integer := (\<lambda>n. if n < 999 then 5 else 7)\<rparr>"
  let ?w = "TWebWindow\<lparr>fId := 1, fWSHandler := Some ''win1'', fKeys := [''5'' \<mapsto> ''browser'']\<rparr>"
  let ?s = "TWebWindowsManager\<lparr>fServer := Some (THttpServer ''basic_sniffer'')\<rparr>"
  have five: "to_string_nat 5 = ''5''" and seven: "to_string_nat 7 = ''7''"
    by (simp_all add: to_string_nat.simps)
  have z: "fst (snd (gen_key ?e ?w 1000 ?s)) = 0"
    using gen_key_zero_iff[of 1000 ?e ?w ?s]
    by (simp add: HasKey_def TWebWindowsManager_def five)
  from gen_key_draws[OF _ z]
  have "fst (gen_key ?e ?w 1000 ?s) = ''7'' \<and>
        snd (snd (gen_key ?e ?w 1000 ?s)) = ?s\<lparr>draws := 1000\<rparr>"
    by (simp add: TWebWindowsManager_def seven)
  with z show ?thesis by (simp add: prod_eq_iff)
qed

text \<open>
  C2. The claim is that Show fails with the key error exactly when 1000 generation
  attempts produce no fresh key. Here the window holds the key 5, the first 999 draws are
  5 and the thousandth draw is 7, which the window does not hold: Show draws all 1000
  values and still fails, since the loop stops on \<^verbatim>\<open>--ntry > 0\<close> before the last key is
  looked up and line 283 then reads \<open>ntry = 0\<close> as failure.
\<close>

theorem Show_fails_although_last_key_fresh:
  "Show (plain_env\<lparr>Integer := (\<lambda>n. if n < 999 then 5 else 7)\<rparr>) linux_build
     (TWebWindow\<lparr>fId := 1, fWSHandler := Some ''win1'', fKeys := [''5'' \<mapsto> ''browser'']\<rparr>)
     ''browser'' (TWebWindowsManager\<lparr>fServer := Some (THttpServer ''basic_sniffer'')\<rparr>) =
   Some (Inl NoUniqueKey,
         TWebWindowsManager\<lparr>fServer := Some (THttpServer ''basic_sniffer''), draws := 1000\<rparr>,
         TWebWindow\<lparr>fId := 1, fWSHandler := Some ''win1'', fKeys := [''5'' \<mapsto> ''browser'']\<rparr>) \<and>
   to_string_nat (Integer (plain_env\<lparr>Integer := (\<lambda>n. if n < 999 then 5 else 7)\<rparr>) 999) = ''7'' \<and>
   \<not> HasKey (TWebWindow\<lparr>fId := 1, fWSHandler := Some ''win1'', fKeys := [''5'' \<mapsto> ''browser'']\<rparr>) ''7''"
proof -
  have fs: "(fServer (TWebWindowsManager\<lparr>fServer := Some (THttpServer ''basic_sniffer'')\<rparr>) = None) = False"
    by simp
  have "Show (plain_env\<lparr>Integer := (\<lambda>n. if n < 999 then 5 else 7)\<rparr>) linux_build
     (TWebWindow\<lparr>fId := 1, fWSHandler := Some ''win1'', fKeys := [''5'' \<mapsto> ''browser'']\<rparr>)
     ''browser'' (TWebWindowsManager\<lparr>fServer := Some (THttpServer ''basic_sniffer'')\<rparr>) =
   Some (Inl NoUniqueKey,
         TWebWindowsManager\<lparr>fServer := Some (THttpServer ''basic_sniffer''), draws := 1000\<rparr>,
         TWebWindow\<lparr>fId := 1, fWSHandler := Some ''win1'', fKeys := [''5'' \<mapsto> ''browser'']\<rparr>)"
    unfolding Show_def Let_def collide_key fst_conv snd_conv fs if_False
    by simp
  then show ?thesis by (simp add: HasKey_def to_string_nat.simps)
qed

text \<open>
  C4. Whenever Show returns a failure, the key table of the window is what it was before
  the call; so a key table that has changed means that Show returned success.
\<close>

theorem Show_error_keeps_keys:
  assumes "Show e b win where_arg s = Some (r, s', win1)"
  shows "(isl r \<longrightarrow> fKeys win1 = fKeys win) \<and> (fKeys win1 \<noteq> fKeys win \<longrightarrow> r = Inr ())"
  using Show_window[OF assms] by (cases r) auto

text \<open>
  Two runs of Show on a window that holds the key 7: in batch mode with the system
  browser, which fails; and with firefox, which goes through the shell.
\<close>

lemma Show_browser_batch:
  "Show plain_env linux_build
     (TWebWindow\<lparr>fId := 1, fBatchMode := True, fWSHandler := Some ''win1'', fKeys := [''7'' \<mapsto> ''firefox'']\<rparr>)
     ''browser'' (TWebWindowsManager\<lparr>fServer := Some (THttpServer ''basic_sniffer'')\<rparr>) =
   Some (Inl BatchNeedsHeadless,
         TWebWindowsManager\<lparr>fServer := Some (THttpServer ''basic_sniffer''), draws := 1\<rparr>,
         TWebWindow\<lparr>fId := 1, fBatchMode := True, fWSHandler := Some ''win1'', fKeys := [''7'' \<mapsto> ''firefox'']\<rparr>)"
  by (simp add: Show_def Show_display_def Show_modes_def Show_addr_def GetUrl_def key_url_def
      gen_key.simps HasKey_def plain_env_def linux_build_def TWebWindow_def TWebWindowsManager_def
      to_string_nat.simps Let_def)

lemma firefox_exec:
  "Show_exec plain_env linux_build
     (TWebWindow\<lparr>fId := 1, fWSHandler := Some ''win1'', fKeys := [''7'' \<mapsto> ''firefox'']\<rparr>)
     ''firefox'' False False False False True = (''firefox'', ''$prog '' @ [CHR 0x27] @ ''$url'' @ [CHR 0x27] @ '' &'')"
  by (simp add: Show_exec_def testprogs_firefox_def plain_env_def linux_build_def TWebWindow_def
      GetValue_str_def Let_def)

lemma firefox_launch:
  "Show_launch plain_env linux_build
     (TWebWindow\<lparr>fId := 1, fWSHandler := Some ''win1'', fKeys := [''7'' \<mapsto> ''firefox'']\<rparr>)
     ''0'' ''firefox'' ''firefox'' (''$prog '' @ [CHR 0x27] @ ''$url'' @ [CHR 0x27] @ '' &'')
     ''http://localhost:9300/web7gui/win1/?key=0'' s =
   (Inr (),
    s\<lparr>launched := launched s @ [Exec (''firefox '' @ [CHR 0x27] @ ''http://localhost:9300/web7gui/win1/?key=0'' @ [CHR 0x27] @ '' &'')]\<rparr>,
    TWebWindow\<lparr>fId := 1, fWSHandler := Some ''win1'', fKeys := [''7'' \<mapsto> ''firefox'', ''0'' \<mapsto> ''firefox'']\<rparr>)"
  by (simp add: Show_launch_def AddKey_def linux_build_def TWebWindow_def ReplaceAll.simps
      to_string_nat.simps Let_def)

lemma firefox_http:
  "CreateHttpServer plain_env True (TWebWindowsManager\<lparr>fServer := Some (THttpServer ''basic_sniffer''), draws := 1\<rparr>) =
     (Inr (), TWebWindowsManager\<lparr>fServer := Some (THttpServer ''basic_sniffer''),
        fAddr := ''http://localhost:9300'', draws := 2,
        engines := [''http:9300?websocket_timeout=10000'']\<rparr>)"
  by (simp add: CreateHttpServer_def plain_env_def TWebWindowsManager_def GetValue_int_def
      GetValue_str_def bind_loop.simps bind_attempt_def Let_def trunc_def engine_spec_def engine_url_def
      to_string_def to_string_nat.simps int32_def)

lemma firefox_key:
  "gen_key plain_env
     (TWebWindow\<lparr>fId := 1, fWSHandler := Some ''win1'', fKeys := [''7'' \<mapsto> ''firefox'']\<rparr>)
     1000 (TWebWindowsManager\<lparr>fServer := Some (THttpServer ''basic_sniffer'')\<rparr>) =
     (''0'', 999, TWebWindowsManager\<lparr>fServer := Some (THttpServer ''basic_sniffer''), draws := 1\<rparr>)"
  by (simp add: gen_key.simps HasKey_def plain_env_def TWebWindow_def TWebWindowsManager_def
      to_string_nat.simps Let_def)

lemma firefox_addr:
  "Show_addr plain_env
     (TWebWindow\<lparr>fId := 1, fWSHandler := Some ''win1'', fKeys := [''7'' \<mapsto> ''firefox'']\<rparr>)
     ''0'' (TWebWindowsManager\<lparr>fServer := Some (THttpServer ''basic_sniffer''), draws := 1\<rparr>) =
   Some (''/web7gui/win1/?key=0'', TWebWindowsManager\<lparr>fServer := Some (THttpServer ''basic_sniffer''), draws := 1\<rparr>)"
  by (simp add: Show_addr_def GetUrl_def key_url_def TWebWindow_def TWebWindowsManager_def)

lemma firefox_display:
  "Show_display plain_env linux_build
     (TWebWindow\<lparr>fId := 1, fWSHandler := Some ''win1'', fKeys := [''7'' \<mapsto> ''firefox'']\<rparr>)
     ''0'' ''/web7gui/win1/?key=0'' ''firefox''
     (TWebWindowsManager\<lparr>fServer := Some (THttpServer ''basic_sniffer''), draws := 1\<rparr>) =
   (Inr (),
         TWebWindowsManager\<lparr>fServer := Some (THttpServer ''basic_sniffer''),
           fAddr := ''http://localhost:9300'', draws := 2,
           engines := [''http:9300?websocket_timeout=10000''],
           launched := [Exec (''firefox '' @ [CHR 0x27] @ ''http://localhost:9300/web7gui/win1/?key=0'' @ [CHR 0x27] @ '' &'')]\<rparr>,
         TWebWindow\<lparr>fId := 1, fWSHandler := Some ''win1'', fKeys := [''7'' \<mapsto> ''firefox'', ''0'' \<mapsto> ''firefox'']\<rparr>)"
proof -
  have fl: "HAS_CEFWEB linux_build = False" "HAS_QT5WEB linux_build = False"
    by (simp_all add: linux_build_def)
  have bm: "fBatchMode (TWebWindow\<lparr>fId := 1, fWSHandler := Some ''win1'', fKeys := [''7'' \<mapsto> ''firefox'']\<rparr>) = False"
    by (simp add: TWebWindow_def)
  have wh: "(if ''firefox'' = [] then WebDisplay plain_env else ''firefox'') = ''firefox''"
    "(''firefox'' = [] \<or> ''firefox'' = ''native'') = False" "(''firefox'' = ''qt5'') = False"
    "(''firefox'' = ''cef'' \<or> False \<and> False) = False"
    "(''firefox'' = ''chrome'' \<or> ''firefox'' = ''chromium'') = False"
    "(''firefox'' = ''firefox'') = True"
    by simp_all
  have m: "Show_modes plain_env linux_build
     (TWebWindow\<lparr>fId := 1, fWSHandler := Some ''win1'', fKeys := [''7'' \<mapsto> ''firefox'']\<rparr>)
     ''0'' ''/web7gui/win1/?key=0'' ''firefox'' False False False False True
     (TWebWindowsManager\<lparr>fServer := Some (THttpServer ''basic_sniffer''), draws := 1\<rparr>) =
     Show_launch plain_env linux_build
     (TWebWindow\<lparr>fId := 1, fWSHandler := Some ''win1'', fKeys := [''7'' \<mapsto> ''firefox'']\<rparr>)
     ''0'' ''firefox'' ''firefox'' (''$prog '' @ [CHR 0x27] @ ''$url'' @ [CHR 0x27] @ '' &'')
     (''http://localhost:9300'' @ ''/web7gui/win1/?key=0'')
     (TWebWindowsManager\<lparr>fServer := Some (THttpServer ''basic_sniffer''),
        fAddr := ''http://localhost:9300'', draws := 2,
        engines := [''http:9300?websocket_timeout=10000'']\<rparr>)"
    unfolding Show_modes_def Show_cef_def Show_qt5_def fl bm firefox_exec
    by (simp add: firefox_http[simplified])
  show ?thesis
    unfolding Show_display_def Let_def wh fl m
    by (simp add: firefox_launch[simplified] TWebWindowsManager_def)
qed

lemma Show_firefox:
  "Show plain_env linux_build
     (TWebWindow\<lparr>fId := 1, fWSHandler := Some ''win1'', fKeys := [''7'' \<mapsto> ''firefox'']\<rparr>)
     ''firefox'' (TWebWindowsManager\<lparr>fServer := Some (THttpServer ''basic_sniffer'')\<rparr>) =
   Some (Inr (),
         TWebWindowsManager\<lparr>fServer := Some (THttpServer ''basic_sniffer''),
           fAddr := ''http://localhost:9300'', draws := 2,
           engines := [''http:9300?websocket_timeout=10000''],
           launched := [Exec (''firefox '' @ [CHR 0x27] @ ''http://localhost:9300/web7gui/win1/?key=0'' @ [CHR 0x27] @ '' &'')]\<rparr>,
         TWebWindow\<lparr>fId := 1, fWSHandler := Some ''win1'', fKeys := [''7'' \<mapsto> ''firefox'', ''0'' \<mapsto> ''firefox'']\<rparr>)"
proof -
  have fs: "(fServer (TWebWindowsManager\<lparr>fServer := Some (THttpServer ''basic_sniffer'')\<rparr>) = None) = False"
    by simp
  have n: "((999::int) = 0) = False" by simp
  show ?thesis
    unfolding Show_def Let_def firefox_key fst_conv snd_conv fs n if_False firefox_addr option.case prod.case firefox_display
    by (rule refl)
qed

theorem Show_error_keeps_keys_witness:
  "Show plain_env linux_build
     (TWebWindow\<lparr>fId := 1, fBatchMode := True, fWSHandler := Some ''win1'', fKeys := [''7'' \<mapsto> ''firefox'']\<rparr>)
     ''browser'' (TWebWindowsManager\<lparr>fServer := Some (THttpServer ''basic_sniffer'')\<rparr>) =
   Some (Inl BatchNeedsHeadless,
         TWebWindowsManager\<lparr>fServer := Some (THttpServer ''basic_sniffer''), draws := 1\<rparr>,
         TWebWindow\<lparr>fId := 1, fBatchMode := True, fWSHandler := Some ''win1'', fKeys := [''7'' \<mapsto> ''firefox'']\<rparr>) \<and>
   Show plain_env linux_build
     (TWebWindow\<lparr>fId := 1, fWSHandler := Some ''win1'', fKeys := [''7'' \<mapsto> ''firefox'']\<rparr>)
     ''firefox'' (TWebWindowsManager\<lparr>fServer := Some (THttpServer ''basic_sniffer'')\<rparr>) =
   Some (Inr (),
         TWebWindowsManager\<lparr>fServer := Some (THttpServer ''basic_sniffer''),
           fAddr := ''http://localhost:9300'', draws := 2,
           engines := [''http:9300?websocket_timeout=10000''],
           launched := [Exec (''firefox '' @ [CHR 0x27] @ ''http://localhost:9300/web7gui/win1/?key=0'' @ [CHR 0x27] @ '' &'')]\<rparr>,
         TWebWindow\<lparr>fId := 1, fWSHandler := Some ''win1'', fKeys := [''7'' \<mapsto> ''firefox'', ''0'' \<mapsto> ''firefox'']\<rparr>) \<and>
   fKeys (TWebWindow\<lparr>fId := 1, fWSHandler := Some ''win1'', fKeys := [''7'' \<mapsto> ''firefox'', ''0'' \<mapsto> ''firefox'']\<rparr>) ''0''
     = Some ''firefox''"
  using Show_error_keeps_keys [OF Show_browser_batch] Show_error_keeps_keys [OF Show_firefox]
    Show_browser_batch Show_firefox
  by simp


text \<open>
  The tag that the shell path records is the launch mode as the caller wrote it (line
  485). A caller who names a program \<open>pid:abc\<close> gets that very string recorded as the
  tag of the key: a tag that begins with \<open>pid:\<close> and holds no number.
\<close>

lemma pidtag_exec:
  "Show_exec plain_env linux_build
     (TWebWindow\<lparr>fId := 1, fWSHandler := Some ''win1''\<rparr>)
     ''pid:abc'' False False False False False = (''pid:abc'', ''$prog $url &'')"
  by (simp add: Show_exec_def plain_env_def linux_build_def TWebWindow_def GetValue_str_def Let_def)

lemma pidtag_launch:
  "Show_launch plain_env linux_build
     (TWebWindow\<lparr>fId := 1, fWSHandler := Some ''win1''\<rparr>)
     ''0'' ''pid:abc'' ''pid:abc'' ''$prog $url &''
     ''http://localhost:9300/web7gui/win1/?key=0'' s =
   (Inr (),
    s\<lparr>launched := launched s @ [Exec ''pid:abc http://localhost:9300/web7gui/win1/?key=0 &'']\<rparr>,
    TWebWindow\<lparr>fId := 1, fWSHandler := Some ''win1'', fKeys := [''0'' \<mapsto> ''pid:abc'']\<rparr>)"
  by (simp add: Show_launch_def AddKey_def linux_build_def TWebWindow_def ReplaceAll.simps
      to_string_nat.simps Let_def)

lemma pidtag_key:
  "gen_key plain_env (TWebWindow\<lparr>fId := 1, fWSHandler := Some ''win1''\<rparr>)
     1000 (TWebWindowsManager\<lparr>fServer := Some (THttpServer ''basic_sniffer'')\<rparr>) =
     (''0'', 999, TWebWindowsManager\<lparr>fServer := Some (THttpServer ''basic_sniffer''), draws := 1\<rparr>)"
  by (simp add: gen_key.simps HasKey_def plain_env_def TWebWindow_def TWebWindowsManager_def
      to_string_nat.simps Let_def)

lemma pidtag_addr:
  "Show_addr plain_env (TWebWindow\<lparr>fId := 1, fWSHandler := Some ''win1''\<rparr>)
     ''0'' (TWebWindowsManager\<lparr>fServer := Some (THttpServer ''basic_sniffer''), draws := 1\<rparr>) =
   Some (''/web7gui/win1/?key=0'', TWebWindowsManager\<lparr>fServer := Some (THttpServer ''basic_sniffer''), draws := 1\<rparr>)"
  by (simp add: Show_addr_def GetUrl_def key_url_def TWebWindow_def TWebWindowsManager_def)

lemma pidtag_display:
  "Show_display plain_env linux_build
     (TWebWindow\<lparr>fId := 1, fWSHandler := Some ''win1''\<rparr>)
     ''0'' ''/web7gui/win1/?key=0'' ''pid:abc''
     (TWebWindowsManager\<lparr>fServer := Some (THttpServer ''basic_sniffer''), draws := 1\<rparr>) =
   (Inr (),
         TWebWindowsManager\<lparr>fServer := Some (THttpServer ''basic_sniffer''),
           fAddr := ''http://localhost:9300'', draws := 2,
           engines := [''http:9300?websocket_timeout=10000''],
           launched := [Exec ''pid:abc http://localhost:9300/web7gui/win1/?key=0 &'']\<rparr>,
         TWebWindow\<lparr>fId := 1, fWSHandler := Some ''win1'', fKeys := [''0'' \<mapsto> ''pid:abc'']\<rparr>)"
proof -
  have fl: "HAS_CEFWEB linux_build = False" "HAS_QT5WEB linux_build = False"
    by (simp_all add: linux_build_def)
  have bm: "fBatchMode (TWebWindow\<lparr>fId := 1, fWSHandler := Some ''win1''\<rparr>) = False"
    by (simp add: TWebWindow_def)
  have wh: "(if ''pid:abc'' = [] then WebDisplay plain_env else ''pid:abc'') = ''pid:abc''"
    "(''pid:abc'' = [] \<or> ''pid:abc'' = ''native'') = False" "(''pid:abc'' = ''qt5'') = False"
    "(''pid:abc'' = ''cef'' \<or> False \<and> False) = False"
    "(''pid:abc'' = ''chrome'' \<or> ''pid:abc'' = ''chromium'') = False"
    "(''pid:abc'' = ''firefox'') = False"
    by simp_all
  have m: "Show_modes plain_env linux_build
     (TWebWindow\<lparr>fId := 1, fWSHandler := Some ''win1''\<rparr>)
     ''0'' ''/web7gui/win1/?key=0'' ''pid:abc'' False False False False False
     (TWebWindowsManager\<lparr>fServer := Some (THttpServer ''basic_sniffer''), draws := 1\<rparr>) =
     Show_launch plain_env linux_build
     (TWebWindow\<lparr>fId := 1, fWSHandler := Some ''win1''\<rparr>)
     ''0'' ''pid:abc'' ''pid:abc'' ''$prog $url &''
     (''http://localhost:9300'' @ ''/web7gui/win1/?key=0'')
     (TWebWindowsManager\<lparr>fServer := Some (THttpServer ''basic_sniffer''),
        fAddr := ''http://localhost:9300'', draws := 2,
        engines := [''http:9300?websocket_timeout=10000'']\<rparr>)"
    unfolding Show_modes_def Show_cef_def Show_qt5_def fl bm pidtag_exec
    by (simp add: firefox_http[simplified])
  show ?thesis
    unfolding Show_display_def Let_def wh fl m
    by (simp add: pidtag_launch[simplified] TWebWindowsManager_def)
qed

lemma Show_records_garbage_pid_tag:
  "Show plain_env linux_build (TWebWindow\<lparr>fId := 1, fWSHandler := Some ''win1''\<rparr>)
     ''pid:abc'' (TWebWindowsManager\<lparr>fServer := Some (THttpServer ''basic_sniffer'')\<rparr>) =
   Some (Inr (),
         TWebWindowsManager\<lparr>fServer := Some (THttpServer ''basic_sniffer''),
           fAddr := ''http://localhost:9300'', draws := 2,
           engines := [''http:9300?websocket_timeout=10000''],
           launched := [Exec ''pid:abc http://localhost:9300/web7gui/win1/?key=0 &'']\<rparr>,
         TWebWindow\<lparr>fId := 1, fWSHandler := Some ''win1'', fKeys := [''0'' \<mapsto> ''pid:abc'']\<rparr>)"
proof -
  have fs: "(fServer (TWebWindowsManager\<lparr>fServer := Some (THttpServer ''basic_sniffer'')\<rparr>) = None) = False"
    by simp
  have n: "((999::int) = 0) = False" by simp
  show ?thesis
    unfolding Show_def Let_def pidtag_key fst_conv snd_conv fs n if_False pidtag_addr option.case prod.case
      pidtag_display
    by (rule refl)
qed

subsection \<open>Properties of WaitFor\<close>

text \<open>
  While the predicate returns 0 and the time limit does not strike, the loop goes on to
  the next call.
\<close>

lemma WaitFor_loop_skip:
  "(\<forall>j<k. check j (spent_at clock j) = 0 \<and> \<not> (timelimit > 0 \<and> clock j > timelimit)) \<Longrightarrow>
     WaitFor_loop check clock timelimit 0 0 = WaitFor_loop check clock timelimit k (spent_at clock k)"
proof (induction k)
  case 0
  then show ?case by (simp add: spent_at_def)
next
  case (Suc k)
  then have "WaitFor_loop check clock timelimit 0 0 = WaitFor_loop check clock timelimit k (spent_at clock k)"
    by simp
  also have "\<dots> = WaitFor_loop check clock timelimit (Suc k) (spent_at clock (Suc k))"
    using Suc.prems by (subst WaitFor_loop.simps) (auto simp: spent_at_def)
  finally show ?case .
qed

lemma WaitFor_loop_first_nonzero:
  assumes "check n (spent_at clock n) \<noteq> 0"
    and "\<forall>j<n. check j (spent_at clock j) = 0 \<and> \<not> (timelimit > 0 \<and> clock j > timelimit)"
  shows "WaitFor_loop check clock timelimit 0 0 = Some (check n (spent_at clock n))"
proof -
  have "WaitFor_loop check clock timelimit 0 0 = WaitFor_loop check clock timelimit n (spent_at clock n)"
    using assms(2) by (rule WaitFor_loop_skip[where k = n and check = check and clock = clock])
  also have "\<dots> = Some (check n (spent_at clock n))"
    using assms(1) by (subst WaitFor_loop.simps) simp
  finally show ?thesis .
qed

lemma WaitFor_loop_timeout:
  assumes "timelimit > 0" and "clock n > timelimit" and "\<forall>j\<le>n. check j (spent_at clock j) = 0"
  shows "WaitFor_loop check clock timelimit 0 0 = Some 0"
proof -
  define m where "m = (LEAST m. clock m > timelimit)"
  have m1: "clock m > timelimit" unfolding m_def using assms(2) by (rule LeastI)
  have m2: "m \<le> n" unfolding m_def using assms(2) by (rule Least_le)
  have m3: "\<not> clock j > timelimit" if "j < m" for j
    using that not_less_Least unfolding m_def by blast
  have "\<forall>j<m. check j (spent_at clock j) = 0 \<and> \<not> (timelimit > 0 \<and> clock j > timelimit)"
    using m2 m3 assms(3) by auto
  then have "WaitFor_loop check clock timelimit 0 0 = WaitFor_loop check clock timelimit m (spent_at clock m)"
    by (rule WaitFor_loop_skip[where k = m and check = check and clock = clock])
  also have "\<dots> = Some 0"
    using m1 m2 assms(1,3) by (subst WaitFor_loop.simps) simp
  finally show ?thesis .
qed

text \<open>
  C5. WaitFor returns the first value other than 0 that the predicate returns, provided
  the time limit has not struck at an earlier round; with a positive time limit, it
  returns 0 once the stopwatch reads more than the limit while the predicate has returned
  0 at every call so far; and a negative time limit is replaced by the configured
  \<open>WebGui.WaitForTmout\<close> (100 when not configured).
\<close>

theorem WaitFor_result:
  "(\<forall>n. check n (spent_at (RealTime e) n) \<noteq> 0 \<and>
         (\<forall>j<n. check j (spent_at (RealTime e) j) = 0 \<and>
                \<not> (0 < (if timelimit < 0 then GetValue_dbl (gEnv e) ''WebGui.WaitForTmout'' 100 else timelimit) \<and>
                   (if timelimit < 0 then GetValue_dbl (gEnv e) ''WebGui.WaitForTmout'' 100 else timelimit)
                     < RealTime e j))
      \<longrightarrow> WaitFor e check timelimit = Some (check n (spent_at (RealTime e) n))) \<and>
   (\<forall>n. 0 < timelimit \<and> timelimit < RealTime e n \<and> (\<forall>j\<le>n. check j (spent_at (RealTime e) j) = 0)
      \<longrightarrow> WaitFor e check timelimit = Some 0) \<and>
   (timelimit < 0 \<longrightarrow>
      WaitFor e check timelimit =
        WaitFor_loop check (RealTime e) (GetValue_dbl (gEnv e) ''WebGui.WaitForTmout'' 100) 0 0)"
proof (intro conjI allI impI)
  fix n
  assume "check n (spent_at (RealTime e) n) \<noteq> 0 \<and>
         (\<forall>j<n. check j (spent_at (RealTime e) j) = 0 \<and>
                \<not> (0 < (if timelimit < 0 then GetValue_dbl (gEnv e) ''WebGui.WaitForTmout'' 100 else timelimit) \<and>
                   (if timelimit < 0 then GetValue_dbl (gEnv e) ''WebGui.WaitForTmout'' 100 else timelimit)
                     < RealTime e j))"
  then show "WaitFor e check timelimit = Some (check n (spent_at (RealTime e) n))"
    unfolding WaitFor_def Let_def by (intro WaitFor_loop_first_nonzero) auto
next
  fix n
  assume "0 < timelimit \<and> timelimit < RealTime e n \<and> (\<forall>j\<le>n. check j (spent_at (RealTime e) j) = 0)"
  then show "WaitFor e check timelimit = Some 0"
    unfolding WaitFor_def Let_def using WaitFor_loop_timeout[of timelimit "RealTime e" n check] by auto
next
  assume "timelimit < 0"
  then show "WaitFor e check timelimit =
        WaitFor_loop check (RealTime e) (GetValue_dbl (gEnv e) ''WebGui.WaitForTmout'' 100) 0 0"
    by (simp add: WaitFor_def)
qed

theorem WaitFor_result_witness:
  "WaitFor plain_env (\<lambda>n spent. if n = 2 then 7 else 0) (- 1) = Some 7 \<and>
   WaitFor plain_env (\<lambda>n spent. 0) (1 / 20) = Some 0 \<and>
   WaitFor plain_env (\<lambda>n spent. 0) (- 1) = WaitFor_loop (\<lambda>n spent. 0) (RealTime plain_env) 100 0 0"
proof -
  have 1: "WaitFor plain_env (\<lambda>n spent. if n = 2 then 7 else 0) (- 1) = Some 7"
    using WaitFor_result [of "\<lambda>n spent. if n = 2 then 7 else 0" plain_env "- 1",
        THEN conjunct1, rule_format, of 2]
    by (auto simp: plain_env_def GetValue_dbl_def)
  have 2: "WaitFor plain_env (\<lambda>n spent. 0) (1 / 20) = Some 0"
    using WaitFor_result [of "\<lambda>n spent. 0" plain_env "1 / 20",
        THEN conjunct2, THEN conjunct1, rule_format, of 5]
    by (simp add: plain_env_def)
  have 3: "WaitFor plain_env (\<lambda>n spent. 0) (- 1) = WaitFor_loop (\<lambda>n spent. 0) (RealTime plain_env) 100 0 0"
    using WaitFor_result [of "\<lambda>n spent. 0" plain_env "- 1", THEN conjunct2, THEN conjunct2]
    by (simp add: plain_env_def GetValue_dbl_def)
  from 1 2 3 show ?thesis by simp
qed

end
